theory Spec2Isabelle
  imports Main
begin

section \<open>JavaScript values\<close>

text \<open>
  The dashboard builder (\<^verbatim>\<open>scripts/build_dashboard.js\<close>) works on the values that
  \<^verbatim>\<open>JSON.parse\<close> returns, and on \<^verbatim>\<open>undefined\<close> for a report that was not loaded
  or a property that is not there. An object is the list of its own properties in the
  order \<^verbatim>\<open>Object.entries\<close> enumerates them (keys distinct); an array has no holes.
  A string is a \<^typ>\<open>string\<close>, one character for each code unit; the few characters
  of the templates outside ASCII are written as the bytes of their UTF-8 encoding, as
  they stand in the output file.

  Numbers are IEEE doubles in the source. The builder never calculates with them: it
  tests them for truthiness and prints them. The type of numbers is therefore a type
  parameter \<open>'n\<close>, and the operations of the runtime on it are a parameter of the model
  (the record \<open>numops\<close> below).
\<close>

datatype 'n jsval =
    JUndefined
  | JNull
  | JBool bool
  | JNum 'n
  | JStr string
  | JArr "'n jsval list"
  | JObj "(string \<times> 'n jsval) list"

text \<open>
  The exceptions of a run: a \<^verbatim>\<open>TypeError\<close> of the language (a property of
  \<^verbatim>\<open>null\<close> or \<^verbatim>\<open>undefined\<close>, a call of something that is not a function, an
  object with no primitive value), and the error \<^verbatim>\<open>fs.writeFileSync\<close> throws when the
  output file cannot be written.
\<close>

datatype error = TypeError | WriteError

definition and_then :: "error + 'a \<Rightarrow> ('a \<Rightarrow> error + 'b) \<Rightarrow> error + 'b" where
  "and_then r f = (case r of Inl e \<Rightarrow> Inl e | Inr x \<Rightarrow> f x)"

text \<open>
  The runtime's operations on numbers: the number \<^verbatim>\<open>0\<close> of the source's defaults,
  whether a number is falsy (\<^verbatim>\<open>0\<close> and \<^verbatim>\<open>-0\<close>; \<^verbatim>\<open>JSON.parse\<close> returns no
  \<^verbatim>\<open>NaN\<close>), \<^verbatim>\<open>String(n)\<close> and \<^verbatim>\<open>n.toFixed(1)\<close>.
\<close>

record 'n numops =
  num_zero :: 'n
  num_falsy :: "'n \<Rightarrow> bool"
  num_to_string :: "'n \<Rightarrow> string"
  num_to_fixed1 :: "'n \<Rightarrow> string"

text \<open>Truthiness (\<^verbatim>\<open>ToBoolean\<close>), and \<^verbatim>\<open>a || b\<close>.\<close>

fun truthy :: "'n numops \<Rightarrow> 'n jsval \<Rightarrow> bool" where
  "truthy N JUndefined = False"
| "truthy N JNull = False"
| "truthy N (JBool b) = b"
| "truthy N (JNum n) = (\<not> num_falsy N n)"
| "truthy N (JStr s) = (s \<noteq> [])"
| "truthy N (JArr xs) = True"
| "truthy N (JObj kvs) = True"

definition js_or :: "'n numops \<Rightarrow> 'n jsval \<Rightarrow> 'n jsval \<Rightarrow> 'n jsval" where
  "js_or N a b = (if truthy N a then a else b)"

text \<open>
  Property access. The property names the source reads are fixed, and none of them is
  \<^verbatim>\<open>length\<close>, an index or a member of a built-in prototype (the one read of
  \<^verbatim>\<open>length\<close> is \<open>length_gt_zero\<close> below). So a boolean, a number, a string and an array
  have none of these properties, and an object has those of its own.
  \<open>get_opt v k\<close> is \<^verbatim>\<open>v?.k\<close>, \<open>get_prop v k\<close> is \<^verbatim>\<open>v.k\<close>.
\<close>

definition nullish :: "'n jsval \<Rightarrow> bool" where
  "nullish v = (v = JUndefined \<or> v = JNull)"

fun own_prop :: "'n jsval \<Rightarrow> string \<Rightarrow> 'n jsval" where
  "own_prop (JObj kvs) k = (case map_of kvs k of Some x \<Rightarrow> x | None \<Rightarrow> JUndefined)"
| "own_prop v k = JUndefined"

definition get_opt :: "'n jsval \<Rightarrow> string \<Rightarrow> 'n jsval" where
  "get_opt v k = (if nullish v then JUndefined else own_prop v k)"

definition get_prop :: "'n jsval \<Rightarrow> string \<Rightarrow> error + 'n jsval" where
  "get_prop v k = (if nullish v then Inl TypeError else Inr (own_prop v k))"

text \<open>
  Conversion to a string (\<^verbatim>\<open>ToString\<close>), as a template literal applies it. An array
  is joined with commas, \<^verbatim>\<open>null\<close> and \<^verbatim>\<open>undefined\<close> elements printing as nothing.
  An object prints as \<^verbatim>\<open>[object Object]\<close> through \<^verbatim>\<open>Object.prototype.toString\<close>,
  unless it has a property \<^verbatim>\<open>toString\<close> of its own: that one is no function (no JSON
  value is), \<^verbatim>\<open>valueOf\<close> returns no primitive, and the conversion throws a
  \<^verbatim>\<open>TypeError\<close>.
\<close>

fun sequence :: "(error + 'a) list \<Rightarrow> error + 'a list" where
  "sequence [] = Inr []"
| "sequence (r # rs) =
     (case r of
        Inl e \<Rightarrow> Inl e
      | Inr x \<Rightarrow> (case sequence rs of Inl e \<Rightarrow> Inl e | Inr xs \<Rightarrow> Inr (x # xs)))"

fun join :: "string \<Rightarrow> string list \<Rightarrow> string" where
  "join sep [] = []"
| "join sep [s] = s"
| "join sep (s # t # ss) = s @ sep @ join sep (t # ss)"

fun to_str :: "'n numops \<Rightarrow> 'n jsval \<Rightarrow> error + string" where
  "to_str N JUndefined = Inr ''undefined''"
| "to_str N JNull = Inr ''null''"
| "to_str N (JBool b) = Inr (if b then ''true'' else ''false'')"
| "to_str N (JNum n) = Inr (num_to_string N n)"
| "to_str N (JStr s) = Inr s"
| "to_str N (JArr xs) =
     and_then (sequence (map (\<lambda>x. if nullish x then Inr [] else to_str N x) xs))
       (\<lambda>ss. Inr (join '','' ss))"
| "to_str N (JObj kvs) =
     (if map_of kvs ''toString'' \<noteq> None then Inl TypeError else Inr ''[object Object]'')"

text \<open>The decimal digits of a natural number, as the runtime prints an index or a count.\<close>

function decimal :: "nat \<Rightarrow> string" where
  "decimal n =
     (if n < 10 then [''0123456789'' ! n]
      else decimal (n div 10) @ [''0123456789'' ! (n mod 10)])"
  by pat_completeness auto
termination
  by (relation "measure (\<lambda>n. n)") auto

declare decimal.simps [simp del]

text \<open>
  \<^verbatim>\<open>Object.entries(v)\<close>: the own properties of an object, the indexed elements of an
  array, the indexed characters of a string, nothing for a boolean or a number, and a
  \<^verbatim>\<open>TypeError\<close> for \<^verbatim>\<open>null\<close> and \<^verbatim>\<open>undefined\<close>.
\<close>

fun entries :: "'n jsval \<Rightarrow> error + (string \<times> 'n jsval) list" where
  "entries JUndefined = Inl TypeError"
| "entries JNull = Inl TypeError"
| "entries (JBool b) = Inr []"
| "entries (JNum n) = Inr []"
| "entries (JStr s) = Inr (zip (map decimal [0..<length s]) (map (\<lambda>c. JStr [c]) s))"
| "entries (JArr xs) = Inr (zip (map decimal [0..<length xs]) xs)"
| "entries (JObj kvs) = Inr kvs"

section \<open>The page templates\<close>

text \<open>
  The template literals of the source, line for line, as functions of the strings
  interpolated into them. The two characters outside ASCII are UTF-8 encoded.
\<close>

type_synonym html = string

definition test_tube :: string where
  "test_tube = [CHR 0xF0, CHR 0x9F, CHR 0xA7, CHR 0xAA]"

definition check_mark :: string where
  "check_mark = [CHR 0xE2, CHR 0x9C, CHR 0x93]"

definition html_head :: "string \<Rightarrow> html" where
  \<open>html_head title_str = concat
    [''<!DOCTYPE html>\<newline>'',
     ''<html lang="en">\<newline>'',
     ''<head>\<newline>'',
     ''    <meta charset="UTF-8">\<newline>'',
     ''    <meta name="viewport" content="width=device-width, initial-scale=1.0">\<newline>'',
     ''    <title>'',
     title_str,
     ''</title>\<newline>'',
     ''    <style>\<newline>'',
     ''        * { margin: 0; padding: 0; box-sizing: border-box; }\<newline>'',
     ''        body {\<newline>'',
     ''            font-family: -apple-system, BlinkMacSystemFont, 'Segoe UI', Roboto, sans-serif;\<newline>'',
     ''            background: linear-gradient(135deg, #667eea 0%, #764ba2 100%);\<newline>'',
     ''            min-height: 100vh;\<newline>'',
     ''            padding: 20px;\<newline>'',
     ''        }\<newline>'',
     ''        .container {\<newline>'',
     ''            max-width: 1400px;\<newline>'',
     ''            margin: 0 auto;\<newline>'',
     ''        }\<newline>'',
     ''        h1 {\<newline>'',
     ''            color: white;\<newline>'',
     ''            text-align: center;\<newline>'',
     ''            margin-bottom: 30px;\<newline>'',
     ''            font-size: 2.5em;\<newline>'',
     ''            text-shadow: 2px 2px 4px rgba(0,0,0,0.2);\<newline>'',
     ''        }\<newline>'',
     ''        .dashboard-grid {\<newline>'',
     ''            display: grid;\<newline>'',
     ''            grid-template-columns: repeat(auto-fit, minmax(350px, 1fr));\<newline>'',
     ''            gap: 20px;\<newline>'',
     ''        }\<newline>'',
     ''        .card {\<newline>'',
     ''            background: white;\<newline>'',
     ''            border-radius: 15px;\<newline>'',
     ''            padding: 25px;\<newline>'',
     ''            box-shadow: 0 10px 30px rgba(0,0,0,0.1);\<newline>'',
     ''            transition: transform 0.3s;\<newline>'',
     ''        }\<newline>'',
     ''        .card:hover {\<newline>'',
     ''            transform: translateY(-5px);\<newline>'',
     ''        }\<newline>'',
     ''        .card h2 {\<newline>'',
     ''            color: #333;\<newline>'',
     ''            margin-bottom: 20px;\<newline>'',
     ''            font-size: 1.4em;\<newline>'',
     ''            border-bottom: 2px solid #667eea;\<newline>'',
     ''            padding-bottom: 10px;\<newline>'',
     ''        }\<newline>'',
     ''        .metric {\<newline>'',
     ''            display: flex;\<newline>'',
     ''            justify-content: space-between;\<newline>'',
     ''            align-items: center;\<newline>'',
     ''            margin: 15px 0;\<newline>'',
     ''            padding: 10px;\<newline>'',
     ''            background: #f8f9fa;\<newline>'',
     ''            border-radius: 8px;\<newline>'',
     ''        }\<newline>'',
     ''        .metric-value {\<newline>'',
     ''            font-size: 1.8em;\<newline>'',
     ''            font-weight: bold;\<newline>'',
     ''            color: #667eea;\<newline>'',
     ''        }\<newline>'',
     ''        .status-badge {\<newline>'',
     ''            display: inline-block;\<newline>'',
     ''            padding: 5px 15px;\<newline>'',
     ''            border-radius: 20px;\<newline>'',
     ''            font-weight: bold;\<newline>'',
     ''            text-transform: uppercase;\<newline>'',
     ''            font-size: 0.85em;\<newline>'',
     ''        }\<newline>'',
     ''        .status-healthy { background: #d4edda; color: #155724; }\<newline>'',
     ''        .status-warning { background: #fff3cd; color: #856404; }\<newline>'',
     ''        .status-critical { background: #f8d7da; color: #721c24; }\<newline>'',
     ''        .alert {\<newline>'',
     ''            padding: 15px;\<newline>'',
     ''            border-radius: 8px;\<newline>'',
     ''            margin: 10px 0;\<newline>'',
     ''            border-left: 4px solid;\<newline>'',
     ''        }\<newline>'',
     ''        .alert-high { background: #f8d7da; border-color: #dc3545; }\<newline>'',
     ''        .alert-medium { background: #fff3cd; border-color: #ffc107; }\<newline>'',
     ''        .alert-low { background: #d1ecf1; border-color: #17a2b8; }\<newline>'',
     ''        .timestamp {\<newline>'',
     ''            text-align: center;\<newline>'',
     ''            color: white;\<newline>'',
     ''            margin-top: 30px;\<newline>'',
     ''            opacity: 0.8;\<newline>'',
     ''        }\<newline>'',
     ''        .progress-bar {\<newline>'',
     ''            width: 100%;\<newline>'',
     ''            height: 25px;\<newline>'',
     ''            background: #e9ecef;\<newline>'',
     ''            border-radius: 12px;\<newline>'',
     ''            overflow: hidden;\<newline>'',
     ''            margin: 10px 0;\<newline>'',
     ''        }\<newline>'',
     ''        .progress-fill {\<newline>'',
     ''            height: 100%;\<newline>'',
     ''            background: linear-gradient(90deg, #667eea, #764ba2);\<newline>'',
     ''            transition: width 0.5s;\<newline>'',
     ''            display: flex;\<newline>'',
     ''            align-items: center;\<newline>'',
     ''            justify-content: center;\<newline>'',
     ''            color: white;\<newline>'',
     ''            font-weight: bold;\<newline>'',
     ''        }\<newline>'',
     ''    </style>\<newline>'',
     ''</head>\<newline>'']\<close>

definition html_cards :: "string \<Rightarrow> string \<Rightarrow> string \<Rightarrow> html \<Rightarrow> html \<Rightarrow> html \<Rightarrow> html \<Rightarrow> html \<Rightarrow> html \<Rightarrow> html" where
  \<open>html_cards title_str class_str text_str health_metrics performance_metrics repo_status alerts_html lab_metrics workflow_status = concat
    [''<body>\<newline>'',
     ''    <div class="container">\<newline>'',
     ''        <h1>'',
     test_tube,
     '' '',
     title_str,
     ''</h1>\<newline>'',
     ''        \<newline>'',
     ''        <div class="dashboard-grid">\<newline>'',
     ''            <!-- System Health Card -->\<newline>'',
     ''            <div class="card">\<newline>'',
     ''                <h2>System Health</h2>\<newline>'',
     ''                <div class="status-badge status-'',
     class_str,
     ''">\<newline>'',
     ''                    '',
     text_str,
     ''\<newline>'',
     ''                </div>\<newline>'',
     ''                '',
     health_metrics,
     ''\<newline>'',
     ''            </div>\<newline>'',
     ''            \<newline>'',
     ''            <!-- Performance Score Card -->\<newline>'',
     ''            <div class="card">\<newline>'',
     ''                <h2>Performance Score</h2>\<newline>'',
     ''                '',
     performance_metrics,
     ''\<newline>'',
     ''            </div>\<newline>'',
     ''            \<newline>'',
     ''            <!-- Repository Status Card -->\<newline>'',
     ''            <div class="card">\<newline>'',
     ''                <h2>Repository Status</h2>\<newline>'',
     ''                '',
     repo_status,
     ''\<newline>'',
     ''            </div>\<newline>'',
     ''            \<newline>'',
     ''            <!-- Alerts Card -->\<newline>'',
     ''            <div class="card">\<newline>'',
     ''                <h2>Active Alerts</h2>\<newline>'',
     ''                '',
     alerts_html,
     ''\<newline>'',
     ''            </div>\<newline>'',
     ''            \<newline>'',
     ''            <!-- Lab Metrics Card -->\<newline>'',
     ''            <div class="card">\<newline>'',
     ''                <h2>Lab Operations</h2>\<newline>'',
     ''                '',
     lab_metrics,
     ''\<newline>'',
     ''            </div>\<newline>'',
     ''            \<newline>'',
     ''            <!-- Workflow Status Card -->\<newline>'',
     ''            <div class="card">\<newline>'',
     ''                <h2>Workflow Status</h2>\<newline>'',
     ''                '',
     workflow_status,
     ''\<newline>'',
     ''            </div>\<newline>'',
     ''        </div>\<newline>'',
     ''        \<newline>'',
     ''        <div class="timestamp">\<newline>'',
     ''            Last Updated: '']\<close>

definition html_foot :: "html" where
  \<open>html_foot = concat
    [''\<newline>'',
     ''        </div>\<newline>'',
     ''    </div>\<newline>'',
     ''    \<newline>'',
     ''    <script>\<newline>'',
     ''        // Auto-refresh every 60 seconds\<newline>'',
     ''        setTimeout(() => location.reload(), 60000);\<newline>'',
     ''    </script>\<newline>'',
     ''</body>\<newline>'',
     ''</html>'']\<close>

definition health_row :: "string \<Rightarrow> string \<Rightarrow> html" where
  \<open>health_row key_str value_str = concat
    [''\<newline>'',
     ''            <div class="metric">\<newline>'',
     ''                <span>'',
     key_str,
     ''</span>\<newline>'',
     ''                <span class="metric-value">'',
     value_str,
     ''</span>\<newline>'',
     ''            </div>\<newline>'',
     ''        '']\<close>

definition perf_template :: "string \<Rightarrow> string \<Rightarrow> html" where
  \<open>perf_template overall_str grade_str = concat
    [''\<newline>'',
     ''            <div class="metric">\<newline>'',
     ''                <span>Overall Score</span>\<newline>'',
     ''                <span class="metric-value">'',
     overall_str,
     ''%</span>\<newline>'',
     ''            </div>\<newline>'',
     ''            <div class="metric">\<newline>'',
     ''                <span>Grade</span>\<newline>'',
     ''                <span class="metric-value">'',
     grade_str,
     ''</span>\<newline>'',
     ''            </div>\<newline>'',
     ''            <div class="progress-bar">\<newline>'',
     ''                <div class="progress-fill" style="width: '',
     overall_str,
     ''%">\<newline>'',
     ''                    '',
     overall_str,
     ''%\<newline>'',
     ''                </div>\<newline>'',
     ''            </div>\<newline>'',
     ''        '']\<close>

definition repo_template :: "string \<Rightarrow> string \<Rightarrow> string \<Rightarrow> html" where
  \<open>repo_template total_str healthy_str with_tests_str = concat
    [''\<newline>'',
     ''            <div class="metric">\<newline>'',
     ''                <span>Total Repositories</span>\<newline>'',
     ''                <span class="metric-value">'',
     total_str,
     ''</span>\<newline>'',
     ''            </div>\<newline>'',
     ''            <div class="metric">\<newline>'',
     ''                <span>Healthy</span>\<newline>'',
     ''                <span class="metric-value">'',
     healthy_str,
     ''</span>\<newline>'',
     ''            </div>\<newline>'',
     ''            <div class="metric">\<newline>'',
     ''                <span>With Tests</span>\<newline>'',
     ''                <span class="metric-value">'',
     with_tests_str,
     ''</span>\<newline>'',
     ''            </div>\<newline>'',
     ''        '']\<close>

definition alert_template :: "string \<Rightarrow> string \<Rightarrow> string \<Rightarrow> html" where
  \<open>alert_template severity_str area_str message_str = concat
    [''\<newline>'',
     ''            <div class="alert alert-'',
     severity_str,
     ''">\<newline>'',
     ''                <strong>'',
     area_str,
     ''</strong><br>\<newline>'',
     ''                '',
     message_str,
     ''\<newline>'',
     ''            </div>\<newline>'',
     ''        '']\<close>

definition lab_template :: "string \<Rightarrow> string \<Rightarrow> string \<Rightarrow> html" where
  \<open>lab_template tat_str qc_str samples_str = concat
    [''\<newline>'',
     ''            <div class="metric">\<newline>'',
     ''                <span>TAT Compliance</span>\<newline>'',
     ''                <span class="metric-value">'',
     tat_str,
     ''%</span>\<newline>'',
     ''            </div>\<newline>'',
     ''            <div class="metric">\<newline>'',
     ''                <span>QC Pass Rate</span>\<newline>'',
     ''                <span class="metric-value">'',
     qc_str,
     ''%</span>\<newline>'',
     ''            </div>\<newline>'',
     ''            <div class="metric">\<newline>'',
     ''                <span>Samples Today</span>\<newline>'',
     ''                <span class="metric-value">'',
     samples_str,
     ''</span>\<newline>'',
     ''            </div>\<newline>'',
     ''        '']\<close>

definition workflow_template :: "string \<Rightarrow> string \<Rightarrow> string \<Rightarrow> html" where
  \<open>workflow_template automation_str pipeline_str quality_str = concat
    [''\<newline>'',
     ''            <div class="metric">\<newline>'',
     ''                <span>Automation Rate</span>\<newline>'',
     ''                <span class="metric-value">'',
     automation_str,
     ''%</span>\<newline>'',
     ''            </div>\<newline>'',
     ''            <div class="metric">\<newline>'',
     ''                <span>Pipeline Success</span>\<newline>'',
     ''                <span class="metric-value">'',
     pipeline_str,
     ''%</span>\<newline>'',
     ''            </div>\<newline>'',
     ''            <div class="metric">\<newline>'',
     ''                <span>Data Quality</span>\<newline>'',
     ''                <span class="metric-value">'',
     quality_str,
     ''%</span>\<newline>'',
     ''            </div>\<newline>'',
     ''        '']\<close>

definition no_health_data :: string where
  \<open>no_health_data = ''<p>No health data available</p>''\<close>

definition no_performance_data :: string where
  \<open>no_performance_data = ''<p>No performance data available</p>''\<close>

definition no_repository_data :: string where
  \<open>no_repository_data = ''<p>No repository data available</p>''\<close>

definition no_active_alerts :: string where
  \<open>no_active_alerts = concat [''<p style="color: green;">'', check_mark, '' No active alerts</p>'']\<close>

definition no_lab_data :: string where
  \<open>no_lab_data = ''<p>No lab data available</p>''\<close>

definition no_workflow_data :: string where
  \<open>no_workflow_data = ''<p>No workflow data available</p>''\<close>

section \<open>The builder's state\<close>

text \<open>
  \<^verbatim>\<open>this.dashboardData\<close>, as the constructor makes it and \<^verbatim>\<open>loadReports\<close> extends it:
  \<open>health\<close>, \<open>repositories\<close> and \<open>performance\<close> are \<^verbatim>\<open>undefined\<close> until a report is
  loaded. An alert is the object the \<^verbatim>\<open>map\<close> callback of \<^verbatim>\<open>buildSections\<close> makes,
  a section one of the three objects pushed there.
\<close>

record 'n alert =
  severity :: "'n jsval"
  area :: "'n jsval"
  message :: string
  impact :: "'n jsval"

record 'n dash_section =
  section_id :: string
  section_title :: string
  section_type :: string
  section_data :: "(string \<times> 'n jsval) list"

record 'n dashboardData =
  timestamp :: string
  title :: string
  version :: string
  sections :: "'n dash_section list"
  metrics :: "(string \<times> 'n jsval) list"
  alerts :: "'n alert list"
  health :: "'n jsval"
  repositories :: "'n jsval"
  performance :: "'n jsval"

section \<open>Rendering the cards\<close>

text \<open>A hole \<^verbatim>\<open>${e || dflt}\<close> of a template: the value or its default, as a string.\<close>

definition shown_or :: "'n numops \<Rightarrow> 'n jsval \<Rightarrow> 'n jsval \<Rightarrow> error + string" where
  "shown_or N v dflt = to_str N (js_or N v dflt)"

text \<open>\<^verbatim>\<open>key.replace(/_/g, ' ')\<close>\<close>

definition replace_underscores :: "string \<Rightarrow> string" where
  "replace_underscores key = map (\<lambda>c. if c = CHR ''_'' then CHR '' '' else c) key"

text \<open>
  One row of the health card: the callback of \<^verbatim>\<open>map\<close> in \<^verbatim>\<open>generateHealthMetrics\<close>.
\<close>

definition metric_row :: "'n numops \<Rightarrow> string \<times> 'n jsval \<Rightarrow> error + string" where
  "metric_row N kv =
     and_then (case snd kv of JNum n \<Rightarrow> Inr (num_to_fixed1 N n) | v \<Rightarrow> to_str N v)
       (\<lambda>value_str. Inr (health_row (replace_underscores (fst kv)) value_str))"

definition generateHealthMetrics :: "'n numops \<Rightarrow> 'n dashboardData \<Rightarrow> error + string" where
  "generateHealthMetrics N d =
     (if \<not> truthy N (health d) then Inr no_health_data
      else
        and_then (get_prop (health d) ''metrics'') (\<lambda>m.
        and_then (entries (js_or N m (JObj []))) (\<lambda>es.
        and_then (sequence (map (metric_row N) (take 3 es))) (\<lambda>rows.
        Inr (concat rows)))))"

text \<open>
  The three holes \<^verbatim>\<open>${perf.overall || 0}\<close> of the performance card are the same
  expression of the same state, evaluated once here.
\<close>

definition generatePerformanceMetrics :: "'n numops \<Rightarrow> 'n dashboardData \<Rightarrow> error + string" where
  "generatePerformanceMetrics N d =
     (let perf = get_opt (performance d) ''performance_score'' in
      if \<not> truthy N perf then Inr no_performance_data
      else
        and_then (get_prop perf ''overall'') (\<lambda>ov.
        and_then (shown_or N ov (JNum (num_zero N))) (\<lambda>overall.
        and_then (get_prop perf ''grade'') (\<lambda>g.
        and_then (shown_or N g (JStr ''N/A'')) (\<lambda>grade.
        Inr (perf_template overall grade))))))"

definition generateRepoStatus :: "'n numops \<Rightarrow> 'n dashboardData \<Rightarrow> error + string" where
  "generateRepoStatus N d =
     (let repos = get_opt (repositories d) ''summary'' in
      if \<not> truthy N repos then Inr no_repository_data
      else
        and_then (get_prop repos ''total_repositories'') (\<lambda>t.
        and_then (shown_or N t (JNum (num_zero N))) (\<lambda>total_str.
        and_then (get_prop repos ''healthy'') (\<lambda>h.
        and_then (shown_or N h (JNum (num_zero N))) (\<lambda>healthy_str.
        and_then (get_prop repos ''with_tests'') (\<lambda>t.
        and_then (shown_or N t (JNum (num_zero N))) (\<lambda>with_tests_str.
        Inr (repo_template total_str healthy_str with_tests_str))))))))"

definition alert_html :: "'n numops \<Rightarrow> 'n alert \<Rightarrow> error + string" where
  "alert_html N a =
     and_then (to_str N (severity a)) (\<lambda>severity_str.
     and_then (to_str N (area a)) (\<lambda>area_str.
     Inr (alert_template severity_str area_str (message a))))"

definition generateAlerts :: "'n numops \<Rightarrow> 'n dashboardData \<Rightarrow> error + string" where
  "generateAlerts N d =
     (if alerts d = [] then Inr no_active_alerts
      else
        and_then (sequence (map (alert_html N) (take 3 (alerts d)))) (\<lambda>rows.
        Inr (concat rows)))"

text \<open>A hole \<^verbatim>\<open>${obj.a?.b || 0}\<close> of the lab and workflow cards.\<close>

definition nested_or_zero :: "'n numops \<Rightarrow> 'n jsval \<Rightarrow> string \<Rightarrow> string \<Rightarrow> error + string" where
  "nested_or_zero N obj a b =
     and_then (get_prop obj a) (\<lambda>x. shown_or N (get_opt x b) (JNum (num_zero N)))"

definition generateLabMetrics :: "'n numops \<Rightarrow> 'n dashboardData \<Rightarrow> error + string" where
  "generateLabMetrics N d =
     (let lab = get_opt (performance d) ''lab_operations'' in
      if \<not> truthy N lab then Inr no_lab_data
      else
        and_then (nested_or_zero N lab ''tat_compliance'' ''current'') (\<lambda>tat.
        and_then (nested_or_zero N lab ''qc_performance'' ''pass_rate'') (\<lambda>qc.
        and_then (nested_or_zero N lab ''sample_volume'' ''daily_average'') (\<lambda>samples.
        Inr (lab_template tat qc samples)))))"

definition generateWorkflowStatus :: "'n numops \<Rightarrow> 'n dashboardData \<Rightarrow> error + string" where
  "generateWorkflowStatus N d =
     (let workflow = get_opt (performance d) ''workflow_efficiency'' in
      if \<not> truthy N workflow then Inr no_workflow_data
      else
        and_then (nested_or_zero N workflow ''automation_rate'' ''current'') (\<lambda>automation.
        and_then (nested_or_zero N workflow ''pipeline_performance''
                    ''github_actions_success_rate'') (\<lambda>pipeline.
        and_then (nested_or_zero N workflow ''data_quality'' ''validation_pass_rate'') (\<lambda>quality.
        Inr (workflow_template automation pipeline quality)))))"

text \<open>
  The status badge of the health card: \<^verbatim>\<open>${this.dashboardData.health?.status || 'unknown'}\<close>
  in the class attribute, and the same with \<^verbatim>\<open>'Unknown'\<close> as the text.
\<close>

definition status_class :: "'n numops \<Rightarrow> 'n dashboardData \<Rightarrow> error + string" where
  "status_class N d = shown_or N (get_opt (health d) ''status'') (JStr ''unknown'')"

definition status_text :: "'n numops \<Rightarrow> 'n dashboardData \<Rightarrow> error + string" where
  "status_text N d = shown_or N (get_opt (health d) ''status'') (JStr ''Unknown'')"

text \<open>
  The page: the template literal of \<^verbatim>\<open>generateHTML\<close>, its holes evaluated in their
  order. \<open>now\<close> is \<^verbatim>\<open>new Date().toLocaleString()\<close>.
\<close>

definition render_html :: "'n numops \<Rightarrow> 'n dashboardData \<Rightarrow> string \<Rightarrow> error + string" where
  "render_html N d now =
     and_then (status_class N d) (\<lambda>class_str.
     and_then (status_text N d) (\<lambda>text_str.
     and_then (generateHealthMetrics N d) (\<lambda>health_metrics.
     and_then (generatePerformanceMetrics N d) (\<lambda>performance_metrics.
     and_then (generateRepoStatus N d) (\<lambda>repo_status.
     and_then (generateAlerts N d) (\<lambda>alerts_html.
     and_then (generateLabMetrics N d) (\<lambda>lab_metrics.
     and_then (generateWorkflowStatus N d) (\<lambda>workflow_status.
     Inr (html_head (title d)
          @ html_cards (title d) class_str text_str health_metrics performance_metrics
              repo_status alerts_html lab_metrics workflow_status
          @ now @ html_foot)))))))))"

section \<open>The run\<close>

text \<open>
  What a run reads from outside. For each of the three report files, what
  \<^verbatim>\<open>JSON.parse(fs.readFileSync(...))\<close> does: the read throws, the parse throws, or a
  value comes back. The three readings of the clock: in the constructor, in
  \<^verbatim>\<open>buildSections\<close> and in \<^verbatim>\<open>generateHTML\<close> (\<^verbatim>\<open>toLocaleString\<close>). The path
  \<^verbatim>\<open>path.join(process.cwd(), 'dashboard.html')\<close>, and whether \<^verbatim>\<open>fs.writeFileSync\<close>
  succeeds on it.
\<close>

datatype 'n file_result = ReadFailed | ParseFailed | Parsed "'n jsval"

record 'n env =
  health_file :: "'n file_result"
  repo_file :: "'n file_result"
  performance_file :: "'n file_result"
  constructed_at :: string
  sections_built_at :: string
  rendered_at :: string
  dashboardPath :: string
  write_ok :: bool

text \<open>
  What a run changes: the builder's data, the lines printed by \<^verbatim>\<open>console.log\<close>, and the
  content written to \<^verbatim>\<open>dashboard.html\<close>. An exception is caught nowhere but in
  \<^verbatim>\<open>loadReports\<close>, so it ends the process: a method that throws returns the error alone.
\<close>

record 'n world =
  data :: "'n dashboardData"
  console :: "string list"
  dashboard_html :: "string option"

definition log_line :: "string \<Rightarrow> 'n world \<Rightarrow> 'n world" where
  "log_line s w = w\<lparr>console := console w @ [s]\<rparr>"

definition bar_chart :: string where
  "bar_chart = [CHR 0xF0, CHR 0x9F, CHR 0x93, CHR 0x8A]"

definition warning_sign :: string where
  "warning_sign = [CHR 0xE2, CHR 0x9A, CHR 0xA0, CHR 0xEF, CHR 0xB8, CHR 0x8F]"

definition hammer :: string where
  "hammer = [CHR 0xF0, CHR 0x9F, CHR 0x94, CHR 0xA8]"

definition memo :: string where
  "memo = [CHR 0xF0, CHR 0x9F, CHR 0x93, CHR 0x9D]"

definition rocket :: string where
  "rocket = [CHR 0xF0, CHR 0x9F, CHR 0x9A, CHR 0x80]"

definition check_mark_button :: string where
  "check_mark_button = [CHR 0xE2, CHR 0x9C, CHR 0x85]"

text \<open>The constructor.\<close>

definition new_builder :: "'n env \<Rightarrow> 'n world" where
  "new_builder e =
     \<lparr>data =
        \<lparr>timestamp = constructed_at e,
         title = ''Lab Automation Dashboard'',
         version = ''2.0.0'',
         sections = [],
         metrics = [],
         alerts = [],
         health = JUndefined,
         repositories = JUndefined,
         performance = JUndefined\<rparr>,
      console = [],
      dashboard_html = None\<rparr>"

definition loadReports :: "'n env \<Rightarrow> 'n world \<Rightarrow> 'n world" where
  "loadReports e w =
     (let w0 = log_line (bar_chart @ '' Loading analysis reports...'') w;
          w1 = (case health_file e of
                  Parsed healthReport \<Rightarrow>
                    log_line (check_mark @ '' Health report loaded'')
                      (w0\<lparr>data := (data w0)\<lparr>health := healthReport\<rparr>\<rparr>)
                | _ \<Rightarrow> log_line (warning_sign @ ''  Health report not found'') w0);
          w2 = (case repo_file e of
                  Parsed repoAnalysis \<Rightarrow>
                    log_line (check_mark @ '' Repository analysis loaded'')
                      (w1\<lparr>data := (data w1)\<lparr>repositories := repoAnalysis\<rparr>\<rparr>)
                | _ \<Rightarrow> log_line (warning_sign @ ''  Repository analysis not found'') w1);
          w3 = (case performance_file e of
                  Parsed perfAnalysis \<Rightarrow>
                    log_line (check_mark @ '' Performance analysis loaded'')
                      (w2\<lparr>data := (data w2)\<lparr>performance := perfAnalysis\<rparr>\<rparr>)
                | _ \<Rightarrow> log_line (warning_sign @ ''  Performance analysis not found'') w2)
      in w3)"

text \<open>The three sections \<^verbatim>\<open>buildSections\<close> pushes.\<close>

definition health_section :: "'n numops \<Rightarrow> 'n env \<Rightarrow> 'n dashboardData \<Rightarrow> 'n dash_section" where
  "health_section N e d =
     \<lparr>section_id = ''system-health'',
      section_title = ''System Health'',
      section_type = ''status'',
      section_data =
        [(''status'', js_or N (get_opt (health d) ''status'') (JStr ''unknown'')),
         (''checks'', js_or N (get_opt (health d) ''checks'') (JObj [])),
         (''lastUpdate'',
            js_or N (get_opt (health d) ''timestamp'') (JStr (sections_built_at e)))]\<rparr>"

definition performance_section :: "'n numops \<Rightarrow> 'n dashboardData \<Rightarrow> 'n dash_section" where
  "performance_section N d =
     \<lparr>section_id = ''performance-metrics'',
      section_title = ''Performance Metrics'',
      section_type = ''metrics'',
      section_data =
        [(''tatCompliance'',
            js_or N (get_opt (get_opt (get_opt (performance d) ''lab_operations'')
                       ''tat_compliance'') ''current'') (JNum (num_zero N))),
         (''qcPassRate'',
            js_or N (get_opt (get_opt (get_opt (performance d) ''lab_operations'')
                       ''qc_performance'') ''pass_rate'') (JNum (num_zero N))),
         (''automationRate'',
            js_or N (get_opt (get_opt (get_opt (performance d) ''workflow_efficiency'')
                       ''automation_rate'') ''current'') (JNum (num_zero N))),
         (''systemUptime'',
            js_or N (get_opt (get_opt (get_opt (performance d) ''system_performance'')
                       ''availability'') ''uptime_percent'') (JNum (num_zero N)))]\<rparr>"

definition repository_section :: "'n numops \<Rightarrow> 'n dashboardData \<Rightarrow> 'n dash_section" where
  "repository_section N d =
     \<lparr>section_id = ''repository-status'',
      section_title = ''Repository Status'',
      section_type = ''table'',
      section_data =
        [(''repositories'', js_or N (get_opt (repositories d) ''repositories'') (JArr [])),
         (''summary'', js_or N (get_opt (repositories d) ''summary'') (JObj []))]\<rparr>"

definition push_sections :: "'n numops \<Rightarrow> 'n env \<Rightarrow> 'n dashboardData \<Rightarrow> 'n dashboardData" where
  "push_sections N e d =
     (let d1 = d\<lparr>sections := sections d @ [health_section N e d]\<rparr>;
          d2 = d1\<lparr>sections := sections d1 @ [performance_section N d1]\<rparr>;
          d3 = d2\<lparr>sections := sections d2 @ [repository_section N d2]\<rparr>
      in d3)"

text \<open>
  The test \<^verbatim>\<open>v?.length > 0\<close>. An array and a string have a length; a boolean and a
  number have none, and \<^verbatim>\<open>undefined > 0\<close> is false. For an object with a property
  \<^verbatim>\<open>length\<close> of its own the runtime compares that value with \<^verbatim>\<open>0\<close>
  (\<^verbatim>\<open>ToPrimitive\<close>, \<^verbatim>\<open>ToNumber\<close>): this comparison is the parameter \<open>gt0\<close>.
\<close>

fun length_gt_zero :: "('n jsval \<Rightarrow> error + bool) \<Rightarrow> 'n jsval \<Rightarrow> error + bool" where
  "length_gt_zero gt0 (JStr s) = Inr (s \<noteq> [])"
| "length_gt_zero gt0 (JArr xs) = Inr (xs \<noteq> [])"
| "length_gt_zero gt0 (JObj kvs) =
     (case map_of kvs ''length'' of None \<Rightarrow> Inr False | Some l \<Rightarrow> gt0 l)"
| "length_gt_zero gt0 v = Inr False"

text \<open>
  The callback of \<^verbatim>\<open>bottlenecks.map\<close>: the alert of one bottleneck. The properties are
  read with \<^verbatim>\<open>b.severity\<close>, not \<^verbatim>\<open>b?.severity\<close>.
\<close>

definition alert_of :: "'n numops \<Rightarrow> 'n jsval \<Rightarrow> error + 'n alert" where
  "alert_of N b =
     and_then (get_prop b ''severity'') (\<lambda>sev.
     and_then (get_prop b ''area'') (\<lambda>ar.
     and_then (get_prop b ''area'') (\<lambda>ar1.
     and_then (to_str N ar1) (\<lambda>area_str.
     and_then (get_prop b ''current_value'') (\<lambda>cur.
     and_then (to_str N cur) (\<lambda>current_str.
     and_then (get_prop b ''target_value'') (\<lambda>tgt.
     and_then (to_str N tgt) (\<lambda>target_str.
     and_then (get_prop b ''impact'') (\<lambda>imp.
     Inr \<lparr>severity = sev,
          area = ar,
          message = area_str @ '': '' @ current_str @ '' (target: '' @ target_str @ '')'',
          impact = imp\<rparr>)))))))))"

text \<open>\<^verbatim>\<open>v.map(f)\<close>: only an array has the method.\<close>

fun array_map :: "('n jsval \<Rightarrow> error + 'a) \<Rightarrow> 'n jsval \<Rightarrow> error + 'a list" where
  "array_map f (JArr xs) = sequence (map f xs)"
| "array_map f v = Inl TypeError"

definition derive_alerts ::
  "'n numops \<Rightarrow> ('n jsval \<Rightarrow> error + bool) \<Rightarrow> 'n dashboardData \<Rightarrow> error + 'n dashboardData" where
  "derive_alerts N gt0 d =
     and_then (length_gt_zero gt0 (get_opt (performance d) ''bottlenecks'')) (\<lambda>nonempty.
       if nonempty then
         and_then (get_prop (performance d) ''bottlenecks'') (\<lambda>bottlenecks.
         and_then (array_map (alert_of N) bottlenecks) (\<lambda>as.
         Inr (d\<lparr>alerts := as\<rparr>)))
       else Inr d)"

definition buildSections ::
  "'n numops \<Rightarrow> ('n jsval \<Rightarrow> error + bool) \<Rightarrow> 'n env \<Rightarrow> 'n world \<Rightarrow> error + 'n world" where
  "buildSections N gt0 e w =
     (let w0 = log_line (hammer @ '' Building dashboard sections...'') w in
      and_then (derive_alerts N gt0 (push_sections N e (data w0))) (\<lambda>d.
      Inr (log_line
             (check_mark @ '' Built '' @ decimal (length (sections d)) @ '' sections'')
             (w0\<lparr>data := d\<rparr>))))"

definition generateHTML :: "'n numops \<Rightarrow> 'n env \<Rightarrow> 'n world \<Rightarrow> error + (string \<times> 'n world)" where
  "generateHTML N e w =
     (let w0 = log_line (memo @ '' Generating HTML dashboard...'') w in
      and_then (render_html N (data w0) (rendered_at e)) (\<lambda>html.
      if write_ok e then
        Inr (dashboardPath e,
             log_line (check_mark @ '' Dashboard saved to '' @ dashboardPath e)
               (w0\<lparr>dashboard_html := Some html\<rparr>))
      else Inl WriteError))"

definition build ::
  "'n numops \<Rightarrow> ('n jsval \<Rightarrow> error + bool) \<Rightarrow> 'n env \<Rightarrow> 'n world \<Rightarrow> error + (nat \<times> 'n world)" where
  "build N gt0 e w =
     (let w0 = log_line (''\<newline>'' @ rocket @ '' Building Enhanced Dashboard...\<newline>'') w;
          w1 = loadReports e w0 in
      and_then (buildSections N gt0 e w1) (\<lambda>w2.
      and_then (generateHTML N e w2) (\<lambda>(path, w3).
      Inr (0,
           log_line (bar_chart @ '' Open '' @ path @ '' in your browser to view\<newline>'')
             (log_line (''\<newline>'' @ check_mark_button @ '' Dashboard built successfully!'') w3)))))"

text \<open>
  The script: \<^verbatim>\<open>process.exit(builder.build())\<close>. An uncaught exception ends the
  process with exit code 1. The result is the exit code and the content written to
  \<^verbatim>\<open>dashboard.html\<close>, if any.
\<close>

definition main ::
  "'n numops \<Rightarrow> ('n jsval \<Rightarrow> error + bool) \<Rightarrow> 'n env \<Rightarrow> nat \<times> string option" where
  "main N gt0 e =
     (case build N gt0 e (new_builder e) of
        Inl err \<Rightarrow> (1, None)
      | Inr (code, w) \<Rightarrow> (code, dashboard_html w))"

section \<open>The webhook endpoint\<close>

text \<open>
  The webhook server (\<^verbatim>\<open>scripts/notion_webhook_server.py\<close>) is not among the sources,
  which hold only the setup guides that call it. A request is its body, parsed (or
  nothing, when it is not JSON), and its signature header; a response is its status,
  its body, and whether the event was handed to the processing hook.
\<close>

datatype 'n response_body =
    Json "'n jsval"
  | Acknowledgement
  | ParseErrorMessage
  | Rejection

record 'n request =
  body :: "'n jsval option"
  signature :: "string option"

record 'n response =
  status :: nat
  response_body :: "'n response_body"
  dispatched :: bool

text \<open>
  Modelled from the spec: the verification request, missing with the server. Its body
  is \<^verbatim>\<open>{"challenge": X}\<close> with \<open>X\<close> a string.
\<close>

fun challenge_of :: "'n jsval \<Rightarrow> string option" where
  "challenge_of (JObj [(k, JStr x)]) = (if k = ''challenge'' then Some x else None)"
| "challenge_of v = None"

text \<open>
  Modelled from the spec: the signature check, missing with the server. The header is
  compared with the configured secret, exactly; with no secret configured every
  request passes.
\<close>

definition signature_ok :: "string option \<Rightarrow> string option \<Rightarrow> bool" where
  "signature_ok secret sig = (case secret of None \<Rightarrow> True | Some s \<Rightarrow> sig = Some s)"

text \<open>
  Modelled from the spec: the endpoint, missing with the server. A body that is not
  JSON is answered with status 400; a verification request with status 200 and the
  body \<^verbatim>\<open>{"challenge": X}\<close>, the string as it came; any other event is rejected with
  status 401 when its signature does not pass, and is otherwise handed to the
  processing hook and acknowledged with status 200.
\<close>

definition webhook_endpoint :: "string option \<Rightarrow> 'n request \<Rightarrow> 'n response" where
  "webhook_endpoint secret req =
     (case body req of
        None \<Rightarrow> \<lparr>status = 400, response_body = ParseErrorMessage, dispatched = False\<rparr>
      | Some b \<Rightarrow>
          (case challenge_of b of
             Some x \<Rightarrow>
               \<lparr>status = 200, response_body = Json (JObj [(''challenge'', JStr x)]),
                dispatched = False\<rparr>
           | None \<Rightarrow>
               if signature_ok secret (signature req)
               then \<lparr>status = 200, response_body = Acknowledgement, dispatched = True\<rparr>
               else \<lparr>status = 401, response_body = Rejection, dispatched = False\<rparr>))"

section \<open>Notions the properties are stated with\<close>

text \<open>
  A runtime for concrete inputs whose numbers are integers (below \<open>10\<^sup>2\<^sup>1\<close> in
  magnitude, which the runtime prints in decimal digits).
\<close>

definition int_decimal :: "int \<Rightarrow> string" where
  "int_decimal i = (if 0 \<le> i then decimal (nat i) else CHR ''-'' # decimal (nat (- i)))"

definition int_numops :: "int numops" where
  "int_numops =
     \<lparr>num_zero = 0,
      num_falsy = (\<lambda>n. n = 0),
      num_to_string = int_decimal,
      num_to_fixed1 = (\<lambda>n. int_decimal n @ ''.0'')\<rparr>"

text \<open>
  The comparison \<^verbatim>\<open>v > 0\<close> on the operands the examples below can reach: a number, a
  boolean, \<^verbatim>\<open>null\<close> and \<^verbatim>\<open>undefined\<close>. (The runtime converts a string, an array or an
  object to a number first; no example below compares one, and this instance answers
  false for them.)
\<close>

fun int_gt0 :: "int jsval \<Rightarrow> error + bool" where
  "int_gt0 (JNum n) = Inr (0 < n)"
| "int_gt0 (JBool b) = Inr b"
| "int_gt0 v = Inr False"

text \<open>A computation that throws nothing.\<close>

definition succeeds :: "error + 'a \<Rightarrow> bool" where
  "succeeds r = (case r of Inl err \<Rightarrow> False | Inr x \<Rightarrow> True)"

text \<open>A report file that could not be loaded, and the value a file leaves in the data.\<close>

definition failed :: "'n file_result \<Rightarrow> bool" where
  "failed f = (case f of Parsed v \<Rightarrow> False | _ \<Rightarrow> True)"

definition loaded_value :: "'n file_result \<Rightarrow> 'n jsval" where
  "loaded_value f = (case f of Parsed v \<Rightarrow> v | _ \<Rightarrow> JUndefined)"

text \<open>
  The page of a run, before it is written: the data as \<^verbatim>\<open>loadReports\<close> and
  \<^verbatim>\<open>buildSections\<close> leave it, rendered.
\<close>

definition built_data ::
  "'n numops \<Rightarrow> ('n jsval \<Rightarrow> error + bool) \<Rightarrow> 'n env \<Rightarrow> error + 'n dashboardData" where
  "built_data N gt0 e =
     derive_alerts N gt0 (push_sections N e (data (loadReports e (new_builder e))))"

definition rendered_page ::
  "'n numops \<Rightarrow> ('n jsval \<Rightarrow> error + bool) \<Rightarrow> 'n env \<Rightarrow> error + string" where
  "rendered_page N gt0 e =
     and_then (built_data N gt0 e) (\<lambda>d. render_html N d (rendered_at e))"

text \<open>The page with every card at its default or placeholder.\<close>

definition default_page :: "string \<Rightarrow> string" where
  "default_page now =
     html_head ''Lab Automation Dashboard''
     @ html_cards ''Lab Automation Dashboard'' ''unknown'' ''Unknown'' no_health_data
         no_performance_data no_repository_data no_active_alerts no_lab_data no_workflow_data
     @ now @ html_foot"

text \<open>
  A display field as the specification words it: the value when it is there (truthy),
  its default otherwise.
\<close>

definition display :: "'n numops \<Rightarrow> 'n jsval \<Rightarrow> string \<Rightarrow> error + string" where
  "display N v dflt = (if truthy N v then to_str N v else Inr dflt)"

text \<open>
  The alert of a bottleneck as the specification words it, for a bottleneck whose
  properties can be read and printed.
\<close>

definition printed :: "'n numops \<Rightarrow> 'n jsval \<Rightarrow> string" where
  "printed N v = (case to_str N v of Inl err \<Rightarrow> [] | Inr s \<Rightarrow> s)"

definition printable :: "'n numops \<Rightarrow> 'n jsval \<Rightarrow> bool" where
  "printable N v = succeeds (to_str N v)"

definition well_formed_bottleneck :: "'n numops \<Rightarrow> 'n jsval \<Rightarrow> bool" where
  "well_formed_bottleneck N b =
     (\<not> nullish b \<and> printable N (own_prop b ''area'')
      \<and> printable N (own_prop b ''current_value'') \<and> printable N (own_prop b ''target_value''))"

definition spec_alert :: "'n numops \<Rightarrow> 'n jsval \<Rightarrow> 'n alert" where
  "spec_alert N b =
     \<lparr>severity = own_prop b ''severity'',
      area = own_prop b ''area'',
      message = printed N (own_prop b ''area'') @ '': '' @ printed N (own_prop b ''current_value'')
                @ '' (target: '' @ printed N (own_prop b ''target_value'') @ '')'',
      impact = own_prop b ''impact''\<rparr>"

text \<open>
  The builder without the three \<^verbatim>\<open>sections.push\<close> statements of
  \<^verbatim>\<open>buildSections\<close>, all else as in the source.
\<close>

definition buildSections_no_push ::
  "'n numops \<Rightarrow> ('n jsval \<Rightarrow> error + bool) \<Rightarrow> 'n env \<Rightarrow> 'n world \<Rightarrow> error + 'n world" where
  "buildSections_no_push N gt0 e w =
     (let w0 = log_line (hammer @ '' Building dashboard sections...'') w in
      and_then (derive_alerts N gt0 (data w0)) (\<lambda>d.
      Inr (log_line
             (check_mark @ '' Built '' @ decimal (length (sections d)) @ '' sections'')
             (w0\<lparr>data := d\<rparr>))))"

definition build_no_push ::
  "'n numops \<Rightarrow> ('n jsval \<Rightarrow> error + bool) \<Rightarrow> 'n env \<Rightarrow> 'n world \<Rightarrow> error + (nat \<times> 'n world)" where
  "build_no_push N gt0 e w =
     (let w0 = log_line (''\<newline>'' @ rocket @ '' Building Enhanced Dashboard...\<newline>'') w;
          w1 = loadReports e w0 in
      and_then (buildSections_no_push N gt0 e w1) (\<lambda>w2.
      and_then (generateHTML N e w2) (\<lambda>(path, w3).
      Inr (0,
           log_line (bar_chart @ '' Open '' @ path @ '' in your browser to view\<newline>'')
             (log_line (''\<newline>'' @ check_mark_button @ '' Dashboard built successfully!'') w3)))))"

definition main_no_push ::
  "'n numops \<Rightarrow> ('n jsval \<Rightarrow> error + bool) \<Rightarrow> 'n env \<Rightarrow> nat \<times> string option" where
  "main_no_push N gt0 e =
     (case build_no_push N gt0 e (new_builder e) of
        Inl err \<Rightarrow> (1, None)
      | Inr (code, w) \<Rightarrow> (code, dashboard_html w))"

text \<open>
  Example runs: every report file failing, and variations of it.
\<close>

definition no_reports :: "int env" where
  "no_reports =
     \<lparr>health_file = ReadFailed,
      repo_file = ReadFailed,
      performance_file = ParseFailed,
      constructed_at = ''2026-11-03T13:35:00.000Z'',
      sections_built_at = ''2026-11-03T13:35:00.010Z'',
      rendered_at = ''11/3/2026, 1:35:00 PM'',
      dashboardPath = ''/work/dashboard.html'',
      write_ok = True\<rparr>"

definition degraded_only :: "int env" where
  "degraded_only = no_reports\<lparr>health_file := Parsed (JObj [(''status'', JStr ''degraded'')])\<rparr>"

definition null_bottleneck :: "int env" where
  "null_bottleneck =
     no_reports\<lparr>performance_file := Parsed (JObj [(''bottlenecks'', JArr [JNull])])\<rparr>"

definition degraded_later :: "int env" where
  "degraded_later =
     degraded_only\<lparr>constructed_at := ''2026-11-03T13:36:00.000Z'',
                   sections_built_at := ''2026-11-03T13:36:00.012Z'',
                   rendered_at := ''11/3/2026, 1:36:00 PM''\<rparr>"

definition one_bottleneck :: "int env" where
  "one_bottleneck =
     no_reports\<lparr>performance_file :=
       Parsed (JObj [(''bottlenecks'',
         JArr [JObj [(''area'', JStr ''TAT''), (''severity'', JStr ''high''),
                     (''current_value'', JNum 78), (''target_value'', JNum 90),
                     (''impact'', JStr ''delayed results'')]])])\<rparr>"

text \<open>Dashboard data with four alerts and four health metrics.\<close>

definition busy :: "int dashboardData" where
  "busy =
     (data (new_builder no_reports))
       \<lparr>alerts :=
          [\<lparr>severity = JStr ''high'', area = JStr ''TAT'', message = ''TAT: 78 (target: 90)'',
            impact = JStr ''delayed results''\<rparr>,
           \<lparr>severity = JStr ''medium'', area = JStr ''QC'', message = ''QC: 95 (target: 98)'',
            impact = JUndefined\<rparr>,
           \<lparr>severity = JStr ''low'', area = JStr ''Staffing'', message = ''Staffing: 3 (target: 4)'',
            impact = JUndefined\<rparr>,
           \<lparr>severity = JStr ''high'', area = JStr ''Errors'', message = ''Errors: 12 (target: 5)'',
            impact = JUndefined\<rparr>],
        health :=
          JObj [(''status'', JStr ''healthy''),
                (''metrics'', JObj [(''cpu_usage'', JNum 7), (''memory_usage'', JNum 3),
                                    (''disk'', JStr ''ok''), (''uptime_days'', JNum 9)])]\<rparr>"

text \<open>Dashboard data from a performance report that has some of its fields.\<close>

definition partial_performance :: "int dashboardData" where
  "partial_performance =
     (data (new_builder no_reports))
       \<lparr>performance :=
          JObj [(''performance_score'', JObj [(''overall'', JNum 8)]),
                (''lab_operations'',
                   JObj [(''tat_compliance'', JObj [(''current'', JNum 7)]),
                         (''qc_performance'', JObj [])])]\<rparr>"

text \<open>Dashboard data from a performance report with a grade and no overall score.\<close>

definition graded :: "int dashboardData" where
  "graded =
     (data (new_builder no_reports))
       \<lparr>performance := JObj [(''performance_score'', JObj [(''grade'', JStr ''B'')])]\<rparr>"

section \<open>Auxiliary facts\<close>

lemma and_then_Inr [simp]: "and_then (Inr x) f = f x"
  by (simp add: and_then_def)

lemma and_then_Inl [simp]: "and_then (Inl err) f = Inl err"
  by (simp add: and_then_def)

lemma truthy_not_nullish: "truthy N v \<Longrightarrow> \<not> nullish v"
  by (cases v) (simp_all add: nullish_def)

lemma get_prop_truthy: "truthy N v \<Longrightarrow> get_prop v k = Inr (own_prop v k)"
  using truthy_not_nullish [of N v] by (simp add: get_prop_def)

lemma get_opt_own_prop: "get_opt v k = own_prop v k"
  by (cases v) (simp_all add: get_opt_def nullish_def)

lemma data_log_line [simp]: "data (log_line s w) = data w"
  by (simp add: log_line_def)

lemma dashboard_html_log_line [simp]: "dashboard_html (log_line s w) = dashboard_html w"
  by (simp add: log_line_def)

lemma loadReports_data:
  "data (loadReports e w) =
     (data w)\<lparr>health := (case health_file e of Parsed v \<Rightarrow> v | _ \<Rightarrow> health (data w)),
              repositories := (case repo_file e of Parsed v \<Rightarrow> v | _ \<Rightarrow> repositories (data w)),
              performance :=
                (case performance_file e of Parsed v \<Rightarrow> v | _ \<Rightarrow> performance (data w))\<rparr>"
  by (cases "health_file e"; cases "repo_file e"; cases "performance_file e";
      simp add: loadReports_def log_line_def)

lemma loadReports_dashboard_html [simp]:
  "dashboard_html (loadReports e w) = dashboard_html w"
  by (cases "health_file e"; cases "repo_file e"; cases "performance_file e";
      simp add: loadReports_def log_line_def)

lemma loadReports_log_line:
  "data (loadReports e (log_line s w)) = data (loadReports e w)"
  by (cases "health_file e"; cases "repo_file e"; cases "performance_file e";
      simp add: loadReports_def log_line_def)

lemma push_sections_eq:
  "push_sections N e d =
     d\<lparr>sections := sections d @ [health_section N e d, performance_section N d,
                               repository_section N d]\<rparr>"
  by (simp add: push_sections_def Let_def health_section_def performance_section_def
      repository_section_def)

lemma derive_alerts_sections:
  "derive_alerts N gt0 (d\<lparr>sections := s\<rparr>) =
     and_then (derive_alerts N gt0 d) (\<lambda>d'. Inr (d'\<lparr>sections := s\<rparr>))"
  by (simp add: derive_alerts_def and_then_def split: sum.splits)

lemma derive_alerts_fields:
  assumes "derive_alerts N gt0 d = Inr d'"
  shows "health d' = health d \<and> repositories d' = repositories d
    \<and> performance d' = performance d \<and> title d' = title d \<and> sections d' = sections d"
  using assms by (auto simp: derive_alerts_def and_then_def split: sum.splits if_splits)

lemma render_html_fields:
  assumes "health d = health d'" "performance d = performance d'"
    "repositories d = repositories d'" "alerts d = alerts d'" "title d = title d'"
  shows "render_html N d now = render_html N d' now"
  using assms
  by (simp add: render_html_def status_class_def status_text_def generateHealthMetrics_def
      generatePerformanceMetrics_def generateRepoStatus_def generateAlerts_def
      generateLabMetrics_def generateWorkflowStatus_def)

lemma render_html_sections [simp]:
  "render_html N (d\<lparr>sections := s\<rparr>) now = render_html N d now"
  by (rule render_html_fields) simp_all

lemma main_rendered_page:
  "main N gt0 e =
     (case rendered_page N gt0 e of
        Inl err \<Rightarrow> (1, None)
      | Inr page \<Rightarrow> if write_ok e then (0, Some page) else (1, None))"
  by (simp add: main_def build_def buildSections_def generateHTML_def rendered_page_def
      built_data_def Let_def loadReports_log_line and_then_def split: sum.splits)

lemma built_data_absent:
  assumes "failed (performance_file e)"
  shows "built_data N gt0 e =
     Inr (push_sections N e (data (loadReports e (new_builder e))))"
  using assms
  by (cases "performance_file e")
     (simp_all add: built_data_def derive_alerts_def push_sections_eq loadReports_data
       new_builder_def failed_def get_opt_own_prop)

lemma render_html_absent:
  assumes "health d = JUndefined" "repositories d = JUndefined" "performance d = JUndefined"
    "alerts d = []" "title d = ''Lab Automation Dashboard''"
  shows "render_html N d now = Inr (default_page now)"
  using assms
  by (simp add: render_html_def status_class_def status_text_def generateHealthMetrics_def
      generatePerformanceMetrics_def generateRepoStatus_def generateAlerts_def
      generateLabMetrics_def generateWorkflowStatus_def default_page_def get_opt_own_prop
      shown_or_def js_or_def)

lemma succeeds_Inr [simp]: "succeeds (Inr x)"
  by (simp add: succeeds_def)

lemma succeeds_Inl [simp]: "\<not> succeeds (Inl err)"
  by (simp add: succeeds_def)

lemma new_builder_loaded:
  "data (loadReports e (new_builder e)) =
     \<lparr>timestamp = constructed_at e, title = ''Lab Automation Dashboard'', version = ''2.0.0'',
      sections = [], metrics = [], alerts = [],
      health = loaded_value (health_file e),
      repositories = loaded_value (repo_file e),
      performance = loaded_value (performance_file e)\<rparr>"
  by (cases "health_file e"; cases "repo_file e"; cases "performance_file e";
      simp add: loadReports_data new_builder_def loaded_value_def)

lemma rendered_page_alt:
  "rendered_page N gt0 e =
     and_then (derive_alerts N gt0 (data (loadReports e (new_builder e))))
       (\<lambda>d. render_html N d (rendered_at e))"
  by (cases "derive_alerts N gt0 (data (loadReports e (new_builder e)))")
     (simp_all add: rendered_page_def built_data_def push_sections_eq derive_alerts_sections)

lemma derive_alerts_shape:
  "(\<exists>err. \<forall>d. performance d = p \<longrightarrow> derive_alerts N gt0 d = Inl err)
   \<or> (\<forall>d. performance d = p \<longrightarrow> derive_alerts N gt0 d = Inr d)
   \<or> (\<exists>as. \<forall>d. performance d = p \<longrightarrow> derive_alerts N gt0 d = Inr (d\<lparr>alerts := as\<rparr>))"
proof (cases "length_gt_zero gt0 (get_opt p ''bottlenecks'')")
  case (Inl err)
  then show ?thesis by (simp add: derive_alerts_def)
next
  case (Inr nonempty)
  show ?thesis
  proof (cases nonempty)
    case False
    with Inr show ?thesis by (simp add: derive_alerts_def)
  next
    case True
    show ?thesis
    proof (cases "get_prop p ''bottlenecks''")
      case (Inl err)
      with Inr True show ?thesis by (simp add: derive_alerts_def)
    next
      case get: (Inr bottlenecks)
      show ?thesis
      proof (cases "array_map (alert_of N) bottlenecks")
        case (Inl err)
        with Inr True get show ?thesis by (simp add: derive_alerts_def)
      next
        case mapped: (Inr as)
        with Inr True get
        have "\<forall>d. performance d = p \<longrightarrow> derive_alerts N gt0 d = Inr (d\<lparr>alerts := as\<rparr>)"
          by (simp add: derive_alerts_def)
        then show ?thesis by blast
      qed
    qed
  qed
qed


lemma and_then_eq_Inr: "(and_then r f = Inr y) = (\<exists>x. r = Inr x \<and> f x = Inr y)"
  by (cases r) simp_all

lemma render_html_succeeds:
  "succeeds (render_html N d now) =
     (succeeds (status_class N d) \<and> succeeds (status_text N d)
      \<and> succeeds (generateHealthMetrics N d) \<and> succeeds (generatePerformanceMetrics N d)
      \<and> succeeds (generateRepoStatus N d) \<and> succeeds (generateAlerts N d)
      \<and> succeeds (generateLabMetrics N d) \<and> succeeds (generateWorkflowStatus N d))"
  by (cases "status_class N d"; cases "status_text N d"; cases "generateHealthMetrics N d";
      cases "generatePerformanceMetrics N d"; cases "generateRepoStatus N d";
      cases "generateAlerts N d"; cases "generateLabMetrics N d";
      cases "generateWorkflowStatus N d"; simp add: render_html_def)

lemma render_html_Inl:
  "render_html N d now = Inl err \<Longrightarrow> render_html N d now' = Inl err"
  by (cases "status_class N d"; cases "status_text N d"; cases "generateHealthMetrics N d";
      cases "generatePerformanceMetrics N d"; cases "generateRepoStatus N d";
      cases "generateAlerts N d"; cases "generateLabMetrics N d";
      cases "generateWorkflowStatus N d"; simp add: render_html_def)

lemma render_html_Inr:
  assumes "render_html N d now = Inr page"
  shows "\<exists>pre. page = pre @ now @ html_foot
    \<and> (\<forall>now'. render_html N d now' = Inr (pre @ now' @ html_foot))"
proof -
  from assms obtain c t h p r a l w where parts:
    "status_class N d = Inr c" "status_text N d = Inr t" "generateHealthMetrics N d = Inr h"
    "generatePerformanceMetrics N d = Inr p" "generateRepoStatus N d = Inr r"
    "generateAlerts N d = Inr a" "generateLabMetrics N d = Inr l"
    "generateWorkflowStatus N d = Inr w"
    and page: "page = html_head (title d) @ html_cards (title d) c t h p r a l w @ now @ html_foot"
    unfolding render_html_def and_then_eq_Inr by auto
  let ?pre = "html_head (title d) @ html_cards (title d) c t h p r a l w"
  have "page = ?pre @ now @ html_foot"
    by (simp add: page)
  moreover have "\<forall>now'. render_html N d now' = Inr (?pre @ now' @ html_foot)"
    by (simp add: render_html_def parts)
  ultimately show ?thesis by blast
qed

lemma health_cards_fields:
  assumes "health d = health d'"
  shows "status_class N d = status_class N d'" "status_text N d = status_text N d'"
    "generateHealthMetrics N d = generateHealthMetrics N d'"
  using assms by (simp_all add: status_class_def status_text_def generateHealthMetrics_def)

lemma performance_cards_fields:
  assumes "performance d = performance d'"
  shows "generatePerformanceMetrics N d = generatePerformanceMetrics N d'"
    "generateLabMetrics N d = generateLabMetrics N d'"
    "generateWorkflowStatus N d = generateWorkflowStatus N d'"
  using assms
  by (simp_all add: generatePerformanceMetrics_def generateLabMetrics_def
      generateWorkflowStatus_def)

lemma repo_card_fields:
  assumes "repositories d = repositories d'"
  shows "generateRepoStatus N d = generateRepoStatus N d'"
  using assms by (simp add: generateRepoStatus_def)

lemma alerts_card_fields:
  assumes "alerts d = alerts d'"
  shows "generateAlerts N d = generateAlerts N d'"
  using assms by (simp add: generateAlerts_def)

lemma health_cards_undefined:
  assumes "health d = JUndefined"
  shows "status_class N d = Inr ''unknown''" "status_text N d = Inr ''Unknown''"
    "generateHealthMetrics N d = Inr no_health_data"
  using assms
  by (simp_all add: status_class_def status_text_def generateHealthMetrics_def shown_or_def
      js_or_def get_opt_own_prop)

lemma performance_cards_undefined:
  assumes "performance d = JUndefined"
  shows "generatePerformanceMetrics N d = Inr no_performance_data"
    "generateLabMetrics N d = Inr no_lab_data"
    "generateWorkflowStatus N d = Inr no_workflow_data"
  using assms
  by (simp_all add: generatePerformanceMetrics_def generateLabMetrics_def
      generateWorkflowStatus_def get_opt_own_prop)

lemma repo_card_undefined:
  assumes "repositories d = JUndefined"
  shows "generateRepoStatus N d = Inr no_repository_data"
  using assms by (simp add: generateRepoStatus_def get_opt_own_prop)

lemma derive_alerts_undefined:
  assumes "performance d = JUndefined"
  shows "derive_alerts N gt0 d = Inr d"
  using assms by (simp add: derive_alerts_def get_opt_own_prop)

lemma alerts_part_fields:
  assumes "performance d = performance d'" "alerts d = alerts d'"
  shows "succeeds (and_then (derive_alerts N gt0 d) (generateAlerts N))
     = succeeds (and_then (derive_alerts N gt0 d') (generateAlerts N))"
proof -
  from derive_alerts_shape [of "performance d" N gt0]
  consider (err) err where "derive_alerts N gt0 d = Inl err" "derive_alerts N gt0 d' = Inl err"
    | (same) "derive_alerts N gt0 d = Inr d" "derive_alerts N gt0 d' = Inr d'"
    | (fresh) as where "derive_alerts N gt0 d = Inr (d\<lparr>alerts := as\<rparr>)"
        "derive_alerts N gt0 d' = Inr (d'\<lparr>alerts := as\<rparr>)"
    using assms(1) by metis
  then show ?thesis
  proof cases
    case err
    then show ?thesis by simp
  next
    case same
    then show ?thesis by (simp add: alerts_card_fields [OF assms(2)])
  next
    case fresh
    then show ?thesis by (simp add: generateAlerts_def)
  qed
qed

lemma rendered_page_succeeds:
  "succeeds (rendered_page N gt0 e) =
     (let D = data (loadReports e (new_builder e)) in
      succeeds (and_then (derive_alerts N gt0 D) (generateAlerts N))
      \<and> succeeds (status_class N D) \<and> succeeds (status_text N D)
      \<and> succeeds (generateHealthMetrics N D) \<and> succeeds (generatePerformanceMetrics N D)
      \<and> succeeds (generateRepoStatus N D) \<and> succeeds (generateLabMetrics N D)
      \<and> succeeds (generateWorkflowStatus N D))"
proof (cases "derive_alerts N gt0 (data (loadReports e (new_builder e)))")
  case (Inl err)
  then show ?thesis by (simp add: rendered_page_alt Let_def)
next
  case (Inr d)
  note fields = derive_alerts_fields [OF Inr]
  show ?thesis
    using health_cards_fields [of d "data (loadReports e (new_builder e))" N]
      performance_cards_fields [of d "data (loadReports e (new_builder e))" N]
      repo_card_fields [of d "data (loadReports e (new_builder e))" N]
    by (auto simp add: rendered_page_alt Inr Let_def render_html_succeeds fields)
qed


lemma loaded_value_failed: "failed f \<Longrightarrow> loaded_value f = JUndefined"
  by (cases f) (simp_all add: failed_def loaded_value_def)

lemma succeeds_without_health:
  assumes "failed f" "succeeds (rendered_page N gt0 e)"
  shows "succeeds (rendered_page N gt0 (e\<lparr>health_file := f\<rparr>))"
proof -
  let ?D = "data (loadReports e (new_builder e))"
  let ?D' = "data (loadReports (e\<lparr>health_file := f\<rparr>) (new_builder (e\<lparr>health_file := f\<rparr>)))"
  have D': "?D' = ?D\<lparr>health := JUndefined\<rparr>"
    by (simp add: new_builder_loaded loaded_value_failed [OF assms(1)])
  have "succeeds (and_then (derive_alerts N gt0 ?D') (generateAlerts N))
      = succeeds (and_then (derive_alerts N gt0 ?D) (generateAlerts N))"
    by (rule alerts_part_fields) (simp_all add: D')
  moreover have "health ?D' = JUndefined" "performance ?D' = performance ?D"
    "repositories ?D' = repositories ?D"
    by (simp_all add: D')
  ultimately show ?thesis
    using assms(2)
    by (simp add: rendered_page_succeeds Let_def health_cards_undefined
        performance_cards_fields [of ?D' ?D] repo_card_fields [of ?D' ?D])
qed

lemma succeeds_without_repositories:
  assumes "failed f" "succeeds (rendered_page N gt0 e)"
  shows "succeeds (rendered_page N gt0 (e\<lparr>repo_file := f\<rparr>))"
proof -
  let ?D = "data (loadReports e (new_builder e))"
  let ?D' = "data (loadReports (e\<lparr>repo_file := f\<rparr>) (new_builder (e\<lparr>repo_file := f\<rparr>)))"
  have D': "?D' = ?D\<lparr>repositories := JUndefined\<rparr>"
    by (simp add: new_builder_loaded loaded_value_failed [OF assms(1)])
  have "succeeds (and_then (derive_alerts N gt0 ?D') (generateAlerts N))
      = succeeds (and_then (derive_alerts N gt0 ?D) (generateAlerts N))"
    by (rule alerts_part_fields) (simp_all add: D')
  moreover have "repositories ?D' = JUndefined" "performance ?D' = performance ?D"
    "health ?D' = health ?D"
    by (simp_all add: D')
  ultimately show ?thesis
    using assms(2)
    by (simp add: rendered_page_succeeds Let_def repo_card_undefined
        performance_cards_fields [of ?D' ?D] health_cards_fields [of ?D' ?D])
qed

lemma succeeds_without_performance:
  assumes "failed f" "succeeds (rendered_page N gt0 e)"
  shows "succeeds (rendered_page N gt0 (e\<lparr>performance_file := f\<rparr>))"
proof -
  let ?D = "data (loadReports e (new_builder e))"
  let ?D' = "data (loadReports (e\<lparr>performance_file := f\<rparr>)
                     (new_builder (e\<lparr>performance_file := f\<rparr>)))"
  have D': "?D' = ?D\<lparr>performance := JUndefined\<rparr>"
    by (simp add: new_builder_loaded loaded_value_failed [OF assms(1)])
  have perf: "performance ?D' = JUndefined"
    by (simp add: D')
  have "alerts ?D' = []"
    by (simp add: new_builder_loaded)
  then have "succeeds (and_then (derive_alerts N gt0 ?D') (generateAlerts N))"
    by (simp add: derive_alerts_undefined [OF perf] generateAlerts_def)
  moreover have "repositories ?D' = repositories ?D" "health ?D' = health ?D"
    by (simp_all add: D')
  ultimately show ?thesis
    using assms(2)
    by (simp add: rendered_page_succeeds Let_def performance_cards_undefined [OF perf]
        repo_card_fields [of ?D' ?D] health_cards_fields [of ?D' ?D])
qed

lemma degraded_only_renders: "succeeds (rendered_page int_numops int_gt0 degraded_only)"
  by (simp add: rendered_page_alt new_builder_loaded degraded_only_def no_reports_def
      loaded_value_def derive_alerts_undefined render_html_succeeds status_class_def
      status_text_def generateHealthMetrics_def shown_or_def js_or_def get_opt_own_prop
      get_prop_def nullish_def performance_cards_undefined repo_card_undefined
      generateAlerts_def)

lemma rendered_page_of_reports:
  "\<exists>r. \<forall>e. loaded_value (health_file e) = h \<and> loaded_value (repo_file e) = rp
          \<and> loaded_value (performance_file e) = p
        \<longrightarrow> rendered_page N gt0 e
            = (case r of Inl err \<Rightarrow> Inl err | Inr pre \<Rightarrow> Inr (pre @ rendered_at e @ html_foot))"
proof -
  let ?D0 = "\<lparr>timestamp = [], title = ''Lab Automation Dashboard'', version = ''2.0.0'',
    sections = [], metrics = [], alerts = [], health = h, repositories = rp, performance = p\<rparr>"
  have D: "data (loadReports e (new_builder e)) = ?D0\<lparr>timestamp := constructed_at e\<rparr>"
    if "loaded_value (health_file e) = h \<and> loaded_value (repo_file e) = rp
      \<and> loaded_value (performance_file e) = p" for e :: "'a env"
    using that by (simp add: new_builder_loaded)
  have shape: "\<exists>r. \<forall>now t. render_html N (d\<lparr>timestamp := t\<rparr>) now
      = (case r of Inl err \<Rightarrow> Inl err | Inr pre \<Rightarrow> Inr (pre @ now @ html_foot))"
    for d :: "'a dashboardData"
  proof (cases "render_html N d []")
    case (Inl err)
    have "render_html N (d\<lparr>timestamp := t\<rparr>) now = Inl err" for t now
      using render_html_Inl [OF Inl, of now]
        render_html_fields [of "d\<lparr>timestamp := t\<rparr>" d N now]
      by simp
    then show ?thesis
      by (intro exI [of _ "Inl err"]) simp
  next
    case (Inr page)
    from render_html_Inr [OF Inr] obtain pre
      where pre: "\<forall>now'. render_html N d now' = Inr (pre @ now' @ html_foot)"
      by blast
    have "render_html N (d\<lparr>timestamp := t\<rparr>) now = Inr (pre @ now @ html_foot)" for t now
      using pre render_html_fields [of "d\<lparr>timestamp := t\<rparr>" d N now]
      by simp
    then show ?thesis
      by (intro exI [of _ "Inr pre"]) simp
  qed
  from derive_alerts_shape [of p N gt0]
  consider (err) err where "\<forall>d. performance d = p \<longrightarrow> derive_alerts N gt0 d = Inl err"
    | (same) "\<forall>d. performance d = p \<longrightarrow> derive_alerts N gt0 d = Inr d"
    | (fresh) as where "\<forall>d. performance d = p \<longrightarrow> derive_alerts N gt0 d = Inr (d\<lparr>alerts := as\<rparr>)"
    by blast
  then show ?thesis
  proof cases
    case err
    then show ?thesis
      by (intro exI [of _ "Inl err"]) (simp add: rendered_page_alt D)
  next
    case same
    from shape [of ?D0] obtain r where r: "\<forall>now t. render_html N (?D0\<lparr>timestamp := t\<rparr>) now
      = (case r of Inl err \<Rightarrow> Inl err | Inr pre \<Rightarrow> Inr (pre @ now @ html_foot))"
      by blast
    show ?thesis
    proof (intro exI [of _ r] allI impI)
      fix e :: "'a env"
      assume files: "loaded_value (health_file e) = h \<and> loaded_value (repo_file e) = rp
        \<and> loaded_value (performance_file e) = p"
      have "derive_alerts N gt0 (?D0\<lparr>timestamp := constructed_at e\<rparr>)
          = Inr (?D0\<lparr>timestamp := constructed_at e\<rparr>)"
        using same by simp
      then show "rendered_page N gt0 e
          = (case r of Inl err \<Rightarrow> Inl err | Inr pre \<Rightarrow> Inr (pre @ rendered_at e @ html_foot))"
        using r by (simp only: rendered_page_alt D [OF files] and_then_Inr)
    qed
  next
    case fresh
    from shape [of "?D0\<lparr>alerts := as\<rparr>"] obtain r
      where r: "\<forall>now t. render_html N (?D0\<lparr>alerts := as, timestamp := t\<rparr>) now
        = (case r of Inl err \<Rightarrow> Inl err | Inr pre \<Rightarrow> Inr (pre @ now @ html_foot))"
      by blast
    show ?thesis
    proof (intro exI [of _ r] allI impI)
      fix e :: "'a env"
      assume files: "loaded_value (health_file e) = h \<and> loaded_value (repo_file e) = rp
        \<and> loaded_value (performance_file e) = p"
      have "derive_alerts N gt0 (?D0\<lparr>timestamp := constructed_at e\<rparr>)
          = Inr (?D0\<lparr>alerts := as, timestamp := constructed_at e\<rparr>)"
        using fresh by simp
      then show "rendered_page N gt0 e
          = (case r of Inl err \<Rightarrow> Inl err | Inr pre \<Rightarrow> Inr (pre @ rendered_at e @ html_foot))"
        using r by (simp only: rendered_page_alt D [OF files] and_then_Inr)
    qed
  qed
qed

lemma main_no_push_rendered_page:
  "main_no_push N gt0 e =
     (case rendered_page N gt0 e of
        Inl err \<Rightarrow> (1, None)
      | Inr page \<Rightarrow> if write_ok e then (0, Some page) else (1, None))"
  by (simp add: main_no_push_def build_no_push_def buildSections_no_push_def generateHTML_def
      rendered_page_alt Let_def loadReports_log_line and_then_def split: sum.splits)


lemma sequence_map_Inr:
  assumes "\<And>x. x \<in> set xs \<Longrightarrow> f x = Inr (g x)"
  shows "sequence (map f xs) = Inr (map g xs)"
  using assms by (induction xs) simp_all

lemma sequence_map_rows:
  assumes "sequence (map f xs) = Inr rows"
  shows "list_all2 (\<lambda>x row. f x = Inr row) xs rows"
  using assms
proof (induction xs arbitrary: rows)
  case Nil
  then show ?case by simp
next
  case (Cons x xs)
  then show ?case
    by (cases "f x"; cases "sequence (map f xs)") auto
qed

lemma printable_printed: "printable N v \<Longrightarrow> to_str N v = Inr (printed N v)"
  by (cases "to_str N v") (simp_all add: printable_def printed_def)

lemma alert_of_well_formed:
  assumes "well_formed_bottleneck N b"
  shows "alert_of N b = Inr (spec_alert N b)"
  using assms
  by (simp add: well_formed_bottleneck_def alert_of_def get_prop_def spec_alert_def
      printable_printed)

lemma decimal_digit: "n < 10 \<Longrightarrow> decimal n = [''0123456789'' ! n]"
  by (simp add: decimal.simps)

lemma decimal_78: "decimal 78 = ''78''"
  by code_simp

lemma decimal_90: "decimal 90 = ''90''"
  by code_simp

lemma shown_or_str: "shown_or N v (JStr s) = display N v s"
  by (simp add: shown_or_def display_def js_or_def)

lemma shown_or_zero:
  assumes "num_to_string N (num_zero N) = ''0''"
  shows "shown_or N v (JNum (num_zero N)) = display N v ''0''"
  using assms by (simp add: shown_or_def display_def js_or_def)

lemma nested_or_zero_display:
  assumes "num_to_string N (num_zero N) = ''0''" "truthy N obj"
  shows "nested_or_zero N obj a b = display N (own_prop (own_prop obj a) b) ''0''"
  using assms
  by (simp add: nested_or_zero_def get_prop_truthy get_opt_own_prop shown_or_zero)

lemma degraded_page:
  assumes "health_file e = Parsed (JObj [(''status'', JStr ''degraded'')])"
    "failed (repo_file e)" "failed (performance_file e)"
  shows "rendered_page N gt0 e
    = Inr (html_head ''Lab Automation Dashboard''
           @ html_cards ''Lab Automation Dashboard'' ''degraded'' ''degraded'' []
               no_performance_data no_repository_data no_active_alerts no_lab_data
               no_workflow_data
           @ rendered_at e @ html_foot)"
proof -
  let ?D = "data (loadReports e (new_builder e))"
  have fields: "health ?D = JObj [(''status'', JStr ''degraded'')]"
    "repositories ?D = JUndefined" "performance ?D = JUndefined" "alerts ?D = []"
    "title ?D = ''Lab Automation Dashboard''"
    using assms by (simp_all add: new_builder_loaded loaded_value_failed) (simp add: loaded_value_def)
  have "status_class N ?D = Inr ''degraded''" "status_text N ?D = Inr ''degraded''"
    "generateHealthMetrics N ?D = Inr []"
    by (simp_all add: fields status_class_def status_text_def generateHealthMetrics_def
        shown_or_def js_or_def get_opt_own_prop get_prop_def nullish_def)
  then show ?thesis
    using fields
    by (simp add: rendered_page_alt derive_alerts_undefined render_html_def
        performance_cards_undefined repo_card_undefined generateAlerts_def)
qed


section \<open>The verification handshake\<close>

text \<open>
  C1. For every string \<open>X\<close>, the empty string included, and whatever secret is
  configured and whatever signature the request carries, the endpoint answers the body
  \<^verbatim>\<open>{"challenge": X}\<close> with status 200 and the body \<^verbatim>\<open>{"challenge": X}\<close>, the string
  unchanged, and hands nothing to the processing hook.
\<close>

theorem challenge_echoed:
  "webhook_endpoint secret \<lparr>body = Some (JObj [(''challenge'', JStr X)]), signature = sig\<rparr>
   = \<lparr>status = 200, response_body = Json (JObj [(''challenge'', JStr X)]), dispatched = False\<rparr>"
  by (simp add: webhook_endpoint_def)

theorem challenge_echoed_witness:
  "webhook_endpoint (Some ''webhook_secret_12345'')
     \<lparr>body = Some (JObj [(''challenge'', JStr '''')]), signature = None\<rparr>
   = \<lparr>status = 200, response_body = Json (JObj [(''challenge'', JStr '''') :: (string \<times> int jsval)]),
      dispatched = False\<rparr>
   \<and> webhook_endpoint None
     \<lparr>body = Some (JObj [(''challenge'', JStr ''test_123'')]), signature = None\<rparr>
   = \<lparr>status = 200,
      response_body = Json (JObj [(''challenge'', JStr ''test_123'') :: (string \<times> int jsval)]),
      dispatched = False\<rparr>"
  using challenge_echoed [of "Some ''webhook_secret_12345''" "''''" None]
    challenge_echoed [of None "''test_123''" None]
  by simp

section \<open>Loading the reports\<close>

text \<open>
  C3. For each of the three report files, when reading or parsing it fails, the loader
  prints its warning and leaves that report as it was (absent, in a builder as the
  constructor made it); when it succeeds, the parsed value is stored. Each report
  depends on its own file alone, and the loader always returns: no failure ends it.
  Nor does a failure end the rendering after it: a run that renders its page still
  renders it when any one of its report files fails instead.
\<close>

theorem loadReports_isolates_failures:
  "health (data (loadReports e w))
     = (case health_file e of Parsed v \<Rightarrow> v | _ \<Rightarrow> health (data w))
   \<and> repositories (data (loadReports e w))
     = (case repo_file e of Parsed v \<Rightarrow> v | _ \<Rightarrow> repositories (data w))
   \<and> performance (data (loadReports e w))
     = (case performance_file e of Parsed v \<Rightarrow> v | _ \<Rightarrow> performance (data w))
   \<and> console (loadReports e w)
     = console w
       @ [bar_chart @ '' Loading analysis reports...'',
          if failed (health_file e) then warning_sign @ ''  Health report not found''
          else check_mark @ '' Health report loaded'',
          if failed (repo_file e) then warning_sign @ ''  Repository analysis not found''
          else check_mark @ '' Repository analysis loaded'',
          if failed (performance_file e) then warning_sign @ ''  Performance analysis not found''
          else check_mark @ '' Performance analysis loaded'']
   \<and> health (data (loadReports e (new_builder e))) = loaded_value (health_file e)
   \<and> repositories (data (loadReports e (new_builder e))) = loaded_value (repo_file e)
   \<and> performance (data (loadReports e (new_builder e))) = loaded_value (performance_file e)
   \<and> (failed f \<and> succeeds (rendered_page N gt0 e)
        \<longrightarrow> succeeds (rendered_page N gt0 (e\<lparr>health_file := f\<rparr>))
          \<and> succeeds (rendered_page N gt0 (e\<lparr>repo_file := f\<rparr>))
          \<and> succeeds (rendered_page N gt0 (e\<lparr>performance_file := f\<rparr>)))"
proof -
  have "failed f \<and> succeeds (rendered_page N gt0 e)
      \<longrightarrow> succeeds (rendered_page N gt0 (e\<lparr>health_file := f\<rparr>))
        \<and> succeeds (rendered_page N gt0 (e\<lparr>repo_file := f\<rparr>))
        \<and> succeeds (rendered_page N gt0 (e\<lparr>performance_file := f\<rparr>))"
    by (simp add: succeeds_without_health succeeds_without_repositories
        succeeds_without_performance)
  then show ?thesis
    by (cases "health_file e"; cases "repo_file e"; cases "performance_file e";
        simp add: loadReports_def log_line_def failed_def loaded_value_def new_builder_def)
qed

theorem loadReports_isolates_failures_witness:
  "health (data (loadReports degraded_only (new_builder degraded_only)))
     = JObj [(''status'', JStr ''degraded'')]
   \<and> repositories (data (loadReports degraded_only (new_builder degraded_only))) = JUndefined
   \<and> performance (data (loadReports degraded_only (new_builder degraded_only))) = JUndefined
   \<and> console (loadReports degraded_only (new_builder degraded_only))
     = [bar_chart @ '' Loading analysis reports...'',
        check_mark @ '' Health report loaded'',
        warning_sign @ ''  Repository analysis not found'',
        warning_sign @ ''  Performance analysis not found'']
   \<and> failed (ParseFailed :: int file_result)
   \<and> succeeds (rendered_page int_numops int_gt0 degraded_only)
   \<and> succeeds (rendered_page int_numops int_gt0 (degraded_only\<lparr>health_file := ParseFailed\<rparr>))"
  using degraded_only_renders
    loadReports_isolates_failures [of degraded_only "new_builder degraded_only" ParseFailed
      int_numops int_gt0]
  by (simp add: degraded_only_def no_reports_def failed_def new_builder_def)

section \<open>A run without reports\<close>

text \<open>
  C5. When all three report files fail to load, nothing throws while the sections are
  built and the page is rendered: the page is the template with the status badge at
  its default and every card at its placeholder, and the run writes it and exits with
  code 0 (the one way left to fail is that the file cannot be written).
\<close>

theorem all_reports_absent_default_page:
  assumes "failed (health_file e)" "failed (repo_file e)" "failed (performance_file e)"
  shows "rendered_page N gt0 e = Inr (default_page (rendered_at e))
    \<and> main N gt0 e
        = (if write_ok e then (0, Some (default_page (rendered_at e))) else (1, None))"
proof -
  let ?d = "push_sections N e (data (loadReports e (new_builder e)))"
  have built: "built_data N gt0 e = Inr ?d"
    using assms(3) by (rule built_data_absent)
  have fields: "health ?d = JUndefined" "repositories ?d = JUndefined"
    "performance ?d = JUndefined" "alerts ?d = []" "title ?d = ''Lab Automation Dashboard''"
    using assms
    by (cases "health_file e"; cases "repo_file e"; cases "performance_file e";
        simp add: push_sections_eq loadReports_data new_builder_def failed_def)+
  have page: "rendered_page N gt0 e = Inr (default_page (rendered_at e))"
    by (simp add: rendered_page_def built render_html_absent [OF fields])
  then show ?thesis
    by (simp add: main_rendered_page)
qed

theorem all_reports_absent_default_page_witness:
  "failed (health_file no_reports) \<and> failed (repo_file no_reports)
   \<and> failed (performance_file no_reports)
   \<and> rendered_page int_numops int_gt0 no_reports = Inr (default_page ''11/3/2026, 1:35:00 PM'')
   \<and> main int_numops int_gt0 no_reports = (0, Some (default_page ''11/3/2026, 1:35:00 PM''))"
  using all_reports_absent_default_page [of no_reports int_numops int_gt0]
  by (simp add: no_reports_def failed_def)

section \<open>The exit code\<close>

text \<open>
  C7 (amended). When nothing throws while the alerts are derived and the page is
  rendered, the run exits with code 0 if the output file is written, and with a
  non-zero code only if it cannot be written. A report file that cannot be read or
  parsed never causes a non-zero exit: with all three failing, the exit code is 0
  unless the output file cannot be written; and a run that exits with code 0 still
  does when any one of its report files fails instead.
\<close>

theorem exit_code_of_build:
  "(succeeds (rendered_page N gt0 e) \<longrightarrow> fst (main N gt0 e) = (if write_ok e then 0 else 1))
   \<and> (failed (health_file e) \<and> failed (repo_file e) \<and> failed (performance_file e)
        \<longrightarrow> fst (main N gt0 e) = (if write_ok e then 0 else 1))
   \<and> (failed f \<and> fst (main N gt0 e) = 0
        \<longrightarrow> fst (main N gt0 (e\<lparr>health_file := f\<rparr>)) = 0
          \<and> fst (main N gt0 (e\<lparr>repo_file := f\<rparr>)) = 0
          \<and> fst (main N gt0 (e\<lparr>performance_file := f\<rparr>)) = 0)"
proof -
  have code: "fst (main N gt0 e') = (if write_ok e' \<and> succeeds (rendered_page N gt0 e') then 0 else 1)"
    for e' :: "'a env"
    by (cases "rendered_page N gt0 e'") (simp_all add: main_rendered_page)
  have absent: "succeeds (rendered_page N gt0 e)"
    if "failed (health_file e) \<and> failed (repo_file e) \<and> failed (performance_file e)"
  proof -
    from that have "health (data (loadReports e (new_builder e))) = JUndefined"
      "repositories (data (loadReports e (new_builder e))) = JUndefined"
      "performance (data (loadReports e (new_builder e))) = JUndefined"
      "alerts (data (loadReports e (new_builder e))) = []"
      by (simp_all add: new_builder_loaded loaded_value_failed)
    then show ?thesis
      by (simp add: rendered_page_succeeds Let_def health_cards_undefined
          performance_cards_undefined repo_card_undefined derive_alerts_undefined
          generateAlerts_def)
  qed
  have one: "fst (main N gt0 (e\<lparr>health_file := f\<rparr>)) = 0
      \<and> fst (main N gt0 (e\<lparr>repo_file := f\<rparr>)) = 0
      \<and> fst (main N gt0 (e\<lparr>performance_file := f\<rparr>)) = 0"
    if "failed f \<and> fst (main N gt0 e) = 0"
  proof -
    from that have "write_ok e" "succeeds (rendered_page N gt0 e)" "failed f"
      by (simp_all add: code split: if_splits)
    then show ?thesis
      by (simp add: code succeeds_without_health succeeds_without_repositories
          succeeds_without_performance)
  qed
  show ?thesis
    using absent one by (simp add: code)
qed

theorem exit_code_of_build_witness:
  "succeeds (rendered_page int_numops int_gt0 degraded_only)
   \<and> fst (main int_numops int_gt0 degraded_only) = 0
   \<and> fst (main int_numops int_gt0 (degraded_only\<lparr>write_ok := False\<rparr>)) = 1
   \<and> failed (health_file no_reports) \<and> failed (repo_file no_reports)
   \<and> failed (performance_file no_reports)
   \<and> fst (main int_numops int_gt0 no_reports) = 0
   \<and> failed (ParseFailed :: int file_result)
   \<and> fst (main int_numops int_gt0 (degraded_only\<lparr>health_file := ParseFailed\<rparr>)) = 0"
proof -
  note ok = degraded_only_renders
  have ok': "succeeds (rendered_page int_numops int_gt0 (degraded_only\<lparr>write_ok := False\<rparr>))"
    using ok by (simp add: rendered_page_alt new_builder_loaded)
  have files: "failed (health_file no_reports)" "failed (repo_file no_reports)"
    "failed (performance_file no_reports)" "failed (ParseFailed :: int file_result)"
    "write_ok no_reports" "write_ok degraded_only"
    by (simp_all add: no_reports_def degraded_only_def failed_def)
  show ?thesis
    using ok ok' files
      exit_code_of_build [of int_numops int_gt0 no_reports ParseFailed]
      exit_code_of_build [of int_numops int_gt0 degraded_only ParseFailed]
      exit_code_of_build [of int_numops int_gt0 "degraded_only\<lparr>write_ok := False\<rparr>" ParseFailed]
    by simp
qed

text \<open>
  The claim as stated fails: a performance report whose bottleneck list holds
  \<^verbatim>\<open>null\<close> ends the run with exit code 1, although the output file could be written.
\<close>

theorem exit_code_counterexample:
  "write_ok null_bottleneck \<and> main int_numops int_gt0 null_bottleneck = (1, None)"
  by (simp add: main_rendered_page rendered_page_alt new_builder_loaded null_bottleneck_def
      no_reports_def loaded_value_def derive_alerts_def get_opt_own_prop get_prop_def
      nullish_def alert_of_def)



section \<open>The output as a function of the reports\<close>

text \<open>
  C8. Two runs on the same three report files, both able to write the output, either
  both end with an exception and write nothing, or write pages that are the same text
  before and after the time of rendering: the clock readings of the constructor and of
  \<^verbatim>\<open>buildSections\<close>, and the output path, leave no trace in the page.
\<close>

theorem output_differs_only_in_timestamp:
  assumes "health_file e1 = health_file e2" "repo_file e1 = repo_file e2"
    "performance_file e1 = performance_file e2" "write_ok e1" "write_ok e2"
  shows "(main N gt0 e1 = (1, None) \<and> main N gt0 e2 = (1, None))
    \<or> (\<exists>pre. main N gt0 e1 = (0, Some (pre @ rendered_at e1 @ html_foot))
            \<and> main N gt0 e2 = (0, Some (pre @ rendered_at e2 @ html_foot)))"
proof -
  from rendered_page_of_reports [of "loaded_value (health_file e1)"
      "loaded_value (repo_file e1)" "loaded_value (performance_file e1)" N gt0]
  obtain r where r: "\<forall>e. loaded_value (health_file e) = loaded_value (health_file e1)
      \<and> loaded_value (repo_file e) = loaded_value (repo_file e1)
      \<and> loaded_value (performance_file e) = loaded_value (performance_file e1)
    \<longrightarrow> rendered_page N gt0 e
        = (case r of Inl err \<Rightarrow> Inl err | Inr pre \<Rightarrow> Inr (pre @ rendered_at e @ html_foot))"
    ..
  have p1: "rendered_page N gt0 e1
      = (case r of Inl err \<Rightarrow> Inl err | Inr pre \<Rightarrow> Inr (pre @ rendered_at e1 @ html_foot))"
    using r [rule_format, of e1] by simp
  have p2: "rendered_page N gt0 e2
      = (case r of Inl err \<Rightarrow> Inl err | Inr pre \<Rightarrow> Inr (pre @ rendered_at e2 @ html_foot))"
    using r [rule_format, of e2] by (simp add: assms)
  show ?thesis
    using assms(4,5) by (cases r) (simp_all add: main_rendered_page p1 p2)
qed


theorem output_differs_only_in_timestamp_witness:
  "health_file degraded_only = health_file degraded_later
   \<and> repo_file degraded_only = repo_file degraded_later
   \<and> performance_file degraded_only = performance_file degraded_later
   \<and> write_ok degraded_only \<and> write_ok degraded_later
   \<and> (\<exists>pre. main int_numops int_gt0 degraded_only
               = (0, Some (pre @ ''11/3/2026, 1:35:00 PM'' @ html_foot))
            \<and> main int_numops int_gt0 degraded_later
               = (0, Some (pre @ ''11/3/2026, 1:36:00 PM'' @ html_foot)))"
proof -
  have files: "health_file degraded_only = health_file degraded_later"
    "repo_file degraded_only = repo_file degraded_later"
    "performance_file degraded_only = performance_file degraded_later"
    "write_ok degraded_only" "write_ok degraded_later"
    "rendered_at degraded_only = ''11/3/2026, 1:35:00 PM''"
    "rendered_at degraded_later = ''11/3/2026, 1:36:00 PM''"
    by (simp_all add: degraded_later_def degraded_only_def no_reports_def)
  have "main int_numops int_gt0 degraded_only \<noteq> (1, None)"
    using degraded_only_renders files(4)
    by (cases "rendered_page int_numops int_gt0 degraded_only")
       (simp_all add: main_rendered_page)
  then show ?thesis
    using output_differs_only_in_timestamp [OF files(1-5), of int_numops int_gt0] files
    by auto
qed

section \<open>The sections are never read\<close>

text \<open>
  C10. The page depends on the health, performance, repositories, alerts and title
  fields of the dashboard data alone; the sections are never read. So the run without
  the three \<^verbatim>\<open>sections.push\<close> statements exits with the same code and writes the same
  file as the run with them.
\<close>

theorem sections_never_read:
  "main N gt0 e = main_no_push N gt0 e
   \<and> render_html N (d\<lparr>sections := s\<rparr>) now = render_html N d now
   \<and> (health d = health d' \<and> performance d = performance d'
        \<and> repositories d = repositories d' \<and> alerts d = alerts d' \<and> title d = title d'
      \<longrightarrow> render_html N d now = render_html N d' now)"
proof (intro conjI impI)
  show "main N gt0 e = main_no_push N gt0 e"
    by (simp add: main_rendered_page main_no_push_rendered_page)
next
  show "render_html N (d\<lparr>sections := s\<rparr>) now = render_html N d now"
    by (rule render_html_sections)
next
  assume "health d = health d' \<and> performance d = performance d'
    \<and> repositories d = repositories d' \<and> alerts d = alerts d' \<and> title d = title d'"
  then show "render_html N d now = render_html N d' now"
    by (intro render_html_fields) simp_all
qed


theorem sections_never_read_witness:
  "main int_numops int_gt0 degraded_only = main_no_push int_numops int_gt0 degraded_only
   \<and> render_html int_numops
        ((data (new_builder no_reports))
           \<lparr>sections := [repository_section int_numops (data (new_builder no_reports))]\<rparr>)
        ''11/3/2026, 1:35:00 PM''
     = render_html int_numops (data (new_builder no_reports)) ''11/3/2026, 1:35:00 PM''
   \<and> health (data (new_builder no_reports)) = health (data (new_builder degraded_later))
   \<and> performance (data (new_builder no_reports)) = performance (data (new_builder degraded_later))
   \<and> repositories (data (new_builder no_reports))
     = repositories (data (new_builder degraded_later))
   \<and> alerts (data (new_builder no_reports)) = alerts (data (new_builder degraded_later))
   \<and> title (data (new_builder no_reports)) = title (data (new_builder degraded_later))
   \<and> render_html int_numops (data (new_builder no_reports)) ''11/3/2026, 1:35:00 PM''
     = render_html int_numops (data (new_builder degraded_later)) ''11/3/2026, 1:35:00 PM''"
  using sections_never_read [where N = int_numops and ?gt0.0 = int_gt0 and e = degraded_only
      and d = "data (new_builder no_reports)"
      and s = "[repository_section int_numops (data (new_builder no_reports))]"
      and now = "''11/3/2026, 1:35:00 PM''" and d' = "data (new_builder degraded_later)"]
  by (simp add: new_builder_def)

section \<open>Alerts from bottlenecks\<close>

text \<open>
  C6 (amended). Whenever the performance report holds a non-empty list of bottlenecks,
  none of them \<^verbatim>\<open>null\<close> and each with an area, a current value and a target value that
  can be printed, \<^verbatim>\<open>buildSections\<close> returns, and the alerts are derived from exactly
  that list, in its order: the bottleneck \<open>b\<close> gives the alert with the severity, area
  and impact of \<open>b\<close> and the message \<^verbatim>\<open><area>: <current_value> (target: <target_value>)\<close>
  (a property that is not there is \<^verbatim>\<open>undefined\<close>, and prints so).
\<close>

theorem alerts_from_bottlenecks:
  assumes "get_opt (performance (data w)) ''bottlenecks'' = JArr bs" "bs \<noteq> []"
    "\<forall>b\<in>set bs. well_formed_bottleneck N b"
  shows "\<exists>w'. buildSections N gt0 e w = Inr w' \<and> alerts (data w') = map (spec_alert N) bs"
proof -
  let ?d = "push_sections N e (data w)"
  have perf: "performance ?d = performance (data w)"
    by (simp add: push_sections_eq)
  from assms(1) have "\<not> nullish (performance (data w))"
    by (auto simp: get_opt_def)
  with assms(1) have get: "get_prop (performance ?d) ''bottlenecks'' = Inr (JArr bs)"
    by (simp add: perf get_prop_def get_opt_def)
  have len: "length_gt_zero gt0 (get_opt (performance ?d) ''bottlenecks'') = Inr True"
    using assms(1,2) by (simp add: perf)
  have "sequence (map (alert_of N) bs) = Inr (map (spec_alert N) bs)"
    using assms(3) by (intro sequence_map_Inr alert_of_well_formed) simp
  then have "derive_alerts N gt0 ?d = Inr (?d\<lparr>alerts := map (spec_alert N) bs\<rparr>)"
    by (simp add: derive_alerts_def len get)
  then show ?thesis
    by (simp add: buildSections_def Let_def)
qed

theorem alerts_from_bottlenecks_witness:
  "get_opt (performance (data (loadReports one_bottleneck (new_builder one_bottleneck))))
     ''bottlenecks''
     = JArr [JObj [(''area'', JStr ''TAT''), (''severity'', JStr ''high''),
                   (''current_value'', JNum 78), (''target_value'', JNum 90),
                   (''impact'', JStr ''delayed results'')]]
   \<and> well_formed_bottleneck int_numops
        (JObj [(''area'', JStr ''TAT''), (''severity'', JStr ''high''),
               (''current_value'', JNum 78), (''target_value'', JNum 90),
               (''impact'', JStr ''delayed results'')])
   \<and> (\<exists>w'. buildSections int_numops int_gt0 one_bottleneck
               (loadReports one_bottleneck (new_builder one_bottleneck)) = Inr w'
          \<and> alerts (data w')
             = [\<lparr>severity = JStr ''high'', area = JStr ''TAT'',
                 message = ''TAT: 78 (target: 90)'', impact = JStr ''delayed results''\<rparr>])"
proof -
  let ?b = "JObj [(''area'', JStr ''TAT''), (''severity'', JStr ''high''),
                  (''current_value'', JNum 78), (''target_value'', JNum 90),
                  (''impact'', JStr ''delayed results'')] :: int jsval"
  have list: "get_opt (performance (data (loadReports one_bottleneck
      (new_builder one_bottleneck)))) ''bottlenecks'' = JArr [?b]"
    by (simp add: new_builder_loaded one_bottleneck_def no_reports_def loaded_value_def
        get_opt_own_prop)
  have wf: "well_formed_bottleneck int_numops ?b"
    by (simp add: well_formed_bottleneck_def nullish_def printable_def)
  have alert: "spec_alert int_numops ?b
      = \<lparr>severity = JStr ''high'', area = JStr ''TAT'',
         message = ''TAT: 78 (target: 90)'', impact = JStr ''delayed results''\<rparr>"
    by (simp add: spec_alert_def printed_def int_numops_def int_decimal_def decimal_78
        decimal_90)
  show ?thesis
    using alerts_from_bottlenecks [OF list, of int_numops int_gt0 one_bottleneck] wf list alert
    by simp
qed

text \<open>
  The claim as stated fails: on the non-empty bottleneck list \<^verbatim>\<open>[null]\<close> the method
  throws a \<^verbatim>\<open>TypeError\<close>, and no alert is derived.
\<close>

theorem alerts_from_bottlenecks_counterexample:
  "get_opt (performance (data (loadReports null_bottleneck (new_builder null_bottleneck))))
     ''bottlenecks'' = JArr [JNull]
   \<and> buildSections int_numops int_gt0 null_bottleneck
       (loadReports null_bottleneck (new_builder null_bottleneck)) = Inl TypeError"
  by (simp add: buildSections_def Let_def push_sections_eq derive_alerts_def
      new_builder_loaded null_bottleneck_def no_reports_def loaded_value_def get_opt_own_prop
      get_prop_def nullish_def alert_of_def)


section \<open>Three rows at most\<close>

text \<open>
  C9. The alerts card is rendered from the first three alerts, in their order, and the
  health card from the first three entries of \<^verbatim>\<open>health.metrics\<close>, in their order: each
  is the concatenation of at most three rows, one per entry, and what comes after the
  third entry changes nothing, neither the text nor whether rendering throws.
\<close>

theorem at_most_three_rows:
  "generateAlerts N d = generateAlerts N (d\<lparr>alerts := take 3 (alerts d)\<rparr>)
   \<and> (alerts d \<noteq> [] \<and> generateAlerts N d = Inr page
        \<longrightarrow> (\<exists>rows. length rows \<le> 3 \<and> page = concat rows
              \<and> list_all2 (\<lambda>a row. alert_html N a = Inr row) (take 3 (alerts d)) rows))
   \<and> generateHealthMetrics N (d\<lparr>health := JObj [(''metrics'', JObj kvs)]\<rparr>)
       = generateHealthMetrics N (d\<lparr>health := JObj [(''metrics'', JObj (take 3 kvs))]\<rparr>)
   \<and> (truthy N (health d) \<and> generateHealthMetrics N d = Inr page'
        \<longrightarrow> (\<exists>es rows. entries (js_or N (own_prop (health d) ''metrics'') (JObj [])) = Inr es
              \<and> length rows \<le> 3 \<and> page' = concat rows
              \<and> list_all2 (\<lambda>kv row. metric_row N kv = Inr row) (take 3 es) rows))"
proof (intro conjI impI)
  show "generateAlerts N d = generateAlerts N (d\<lparr>alerts := take 3 (alerts d)\<rparr>)"
    by (cases "alerts d") (simp_all add: generateAlerts_def)
next
  assume a: "alerts d \<noteq> [] \<and> generateAlerts N d = Inr page"
  then obtain rows where rows: "sequence (map (alert_html N) (take 3 (alerts d))) = Inr rows"
    and page: "page = concat rows"
    by (auto simp: generateAlerts_def and_then_eq_Inr)
  from sequence_map_rows [OF rows]
  have all: "list_all2 (\<lambda>a row. alert_html N a = Inr row) (take 3 (alerts d)) rows" .
  then have "length rows \<le> 3"
    by (auto dest: list_all2_lengthD)
  with page all
  show "\<exists>rows. length rows \<le> 3 \<and> page = concat rows
      \<and> list_all2 (\<lambda>a row. alert_html N a = Inr row) (take 3 (alerts d)) rows"
    by blast
next
  show "generateHealthMetrics N (d\<lparr>health := JObj [(''metrics'', JObj kvs)]\<rparr>)
       = generateHealthMetrics N (d\<lparr>health := JObj [(''metrics'', JObj (take 3 kvs))]\<rparr>)"
    by (simp add: generateHealthMetrics_def get_prop_def nullish_def js_or_def)
next
  assume h: "truthy N (health d) \<and> generateHealthMetrics N d = Inr page'"
  then obtain es rows
    where es: "entries (js_or N (own_prop (health d) ''metrics'') (JObj [])) = Inr es"
      and rows: "sequence (map (metric_row N) (take 3 es)) = Inr rows"
      and page: "page' = concat rows"
    by (auto simp: generateHealthMetrics_def and_then_eq_Inr get_prop_truthy)
  from sequence_map_rows [OF rows]
  have all: "list_all2 (\<lambda>kv row. metric_row N kv = Inr row) (take 3 es) rows" .
  then have "length rows \<le> 3"
    by (auto dest: list_all2_lengthD)
  with es page all
  show "\<exists>es rows. entries (js_or N (own_prop (health d) ''metrics'') (JObj [])) = Inr es
      \<and> length rows \<le> 3 \<and> page' = concat rows
      \<and> list_all2 (\<lambda>kv row. metric_row N kv = Inr row) (take 3 es) rows"
    by blast
qed


theorem at_most_three_rows_witness:
  "generateAlerts int_numops busy = generateAlerts int_numops (busy\<lparr>alerts := take 3 (alerts busy)\<rparr>)
   \<and> alerts busy \<noteq> []
   \<and> generateAlerts int_numops busy
       = Inr (concat [alert_template ''high'' ''TAT'' ''TAT: 78 (target: 90)'',
                      alert_template ''medium'' ''QC'' ''QC: 95 (target: 98)'',
                      alert_template ''low'' ''Staffing'' ''Staffing: 3 (target: 4)''])
   \<and> truthy int_numops (health busy)
   \<and> generateHealthMetrics int_numops busy
       = Inr (concat [health_row ''cpu usage'' ''7.0'', health_row ''memory usage'' ''3.0'',
                      health_row ''disk'' ''ok''])
   \<and> (\<exists>rows. length rows \<le> 3
          \<and> concat [health_row ''cpu usage'' ''7.0'', health_row ''memory usage'' ''3.0'',
                     health_row ''disk'' ''ok''] = concat rows)"
proof -
  have alerts: "alerts busy \<noteq> []"
    "generateAlerts int_numops busy
       = Inr (concat [alert_template ''high'' ''TAT'' ''TAT: 78 (target: 90)'',
                      alert_template ''medium'' ''QC'' ''QC: 95 (target: 98)'',
                      alert_template ''low'' ''Staffing'' ''Staffing: 3 (target: 4)''])"
    by (simp_all add: busy_def generateAlerts_def alert_html_def)
  have health: "truthy int_numops (health busy)"
    "generateHealthMetrics int_numops busy
       = Inr (concat [health_row ''cpu usage'' ''7.0'', health_row ''memory usage'' ''3.0'',
                      health_row ''disk'' ''ok''])"
    by (simp_all add: busy_def generateHealthMetrics_def get_prop_def nullish_def js_or_def
        metric_row_def replace_underscores_def int_numops_def int_decimal_def decimal_digit)
  show ?thesis
    using alerts health
      at_most_three_rows [where N = int_numops and d = busy
        and page = "concat [alert_template ''high'' ''TAT'' ''TAT: 78 (target: 90)'',
                      alert_template ''medium'' ''QC'' ''QC: 95 (target: 98)'',
                      alert_template ''low'' ''Staffing'' ''Staffing: 3 (target: 4)'']"
        and page' = "concat [health_row ''cpu usage'' ''7.0'', health_row ''memory usage'' ''3.0'',
                      health_row ''disk'' ''ok'']"
        and kvs = "[]"]
    by auto
qed


section \<open>A health report with some of its fields\<close>

text \<open>
  C2 (amended). In a report that holds some of the expected fields, a field that is
  there as a non-empty string is printed as it is, and a field that is not there prints
  as its default. For the health report: a status that is a non-empty string is the
  class and the text of the badge, whatever else the report holds or lacks; a status
  that is not there prints as \<^verbatim>\<open>unknown\<close> in the class and \<^verbatim>\<open>Unknown\<close> as the text; and
  metrics that are not there give a health card with no rows, the empty text. The
  placeholder \<^verbatim>\<open><p>No health data available</p>\<close> is rendered when the health report
  itself is absent (or falsy). For the performance report: a score with a grade and no
  overall value prints the grade and \<^verbatim>\<open>0\<close>. In particular, for the health report
  \<^verbatim>\<open>{"status":"degraded"}\<close> and no other report, the badge reads \<^verbatim>\<open>degraded\<close>, the
  health card has no rows, and the other cards show their placeholders.
\<close>

theorem health_fields_pass_through:
  "(health d = JObj kvs \<and> map_of kvs ''status'' = Some (JStr (c # cs))
      \<longrightarrow> status_class N d = Inr (c # cs) \<and> status_text N d = Inr (c # cs))
   \<and> (health d = JObj kvs \<and> map_of kvs ''status'' = None
      \<longrightarrow> status_class N d = Inr ''unknown'' \<and> status_text N d = Inr ''Unknown'')
   \<and> (health d = JObj kvs \<and> map_of kvs ''metrics'' = None
      \<longrightarrow> generateHealthMetrics N d = Inr [])
   \<and> (\<not> truthy N (health d) \<longrightarrow> generateHealthMetrics N d = Inr no_health_data)
   \<and> (own_prop (performance d) ''performance_score'' = JObj pvs
        \<and> map_of pvs ''grade'' = Some (JStr (g # gs)) \<and> map_of pvs ''overall'' = None
        \<and> num_to_string N (num_zero N) = ''0''
      \<longrightarrow> generatePerformanceMetrics N d = Inr (perf_template ''0'' (g # gs)))
   \<and> (health_file e = Parsed (JObj [(''status'', JStr ''degraded'')])
        \<and> failed (repo_file e) \<and> failed (performance_file e)
      \<longrightarrow> rendered_page N gt0 e
          = Inr (html_head ''Lab Automation Dashboard''
                 @ html_cards ''Lab Automation Dashboard'' ''degraded'' ''degraded'' []
                     no_performance_data no_repository_data no_active_alerts no_lab_data
                     no_workflow_data
                 @ rendered_at e @ html_foot))"
  by (auto simp: status_class_def status_text_def generateHealthMetrics_def shown_or_def
      js_or_def get_opt_own_prop get_prop_def nullish_def degraded_page
      generatePerformanceMetrics_def)

theorem health_fields_pass_through_witness:
  "health (data (loadReports degraded_only (new_builder degraded_only)))
     = JObj [(''status'', JStr ''degraded'')]
   \<and> status_class int_numops (data (loadReports degraded_only (new_builder degraded_only)))
     = Inr ''degraded''
   \<and> status_text int_numops (data (loadReports degraded_only (new_builder degraded_only)))
     = Inr ''degraded''
   \<and> generateHealthMetrics int_numops (data (loadReports degraded_only (new_builder degraded_only)))
     = Inr []
   \<and> \<not> truthy int_numops (health (data (new_builder no_reports)))
   \<and> generateHealthMetrics int_numops (data (new_builder no_reports)) = Inr no_health_data
   \<and> own_prop (performance graded) ''performance_score'' = JObj [(''grade'', JStr ''B'')]
   \<and> num_to_string int_numops (num_zero int_numops) = ''0''
   \<and> generatePerformanceMetrics int_numops graded = Inr (perf_template ''0'' ''B'')
   \<and> rendered_page int_numops int_gt0 degraded_only
     = Inr (html_head ''Lab Automation Dashboard''
            @ html_cards ''Lab Automation Dashboard'' ''degraded'' ''degraded'' []
                no_performance_data no_repository_data no_active_alerts no_lab_data
                no_workflow_data
            @ ''11/3/2026, 1:35:00 PM'' @ html_foot)"
proof -
  have h: "health (data (loadReports degraded_only (new_builder degraded_only)))
      = JObj [(''status'', JStr ''degraded'')]"
    by (simp add: new_builder_loaded degraded_only_def no_reports_def loaded_value_def)
  have files: "health_file degraded_only = Parsed (JObj [(''status'', JStr ''degraded'')])"
    "failed (repo_file degraded_only)" "failed (performance_file degraded_only)"
    "rendered_at degraded_only = ''11/3/2026, 1:35:00 PM''"
    "\<not> truthy int_numops (health (data (new_builder no_reports)))"
    by (simp_all add: degraded_only_def no_reports_def failed_def new_builder_def)
  have grade: "own_prop (performance graded) ''performance_score'' = JObj [(''grade'', JStr ''B'')]"
    "num_to_string int_numops (num_zero int_numops) = ''0''"
    by (simp_all add: graded_def int_numops_def int_decimal_def decimal_digit)
  show ?thesis
    using h files grade
      health_fields_pass_through [where d = "data (loadReports degraded_only
          (new_builder degraded_only))" and kvs = "[(''status'', JStr ''degraded'')]"
        and c = "CHR ''d''" and cs = "''egraded''" and N = int_numops and ?gt0.0 = int_gt0
        and e = degraded_only]
      health_fields_pass_through [where d = "data (new_builder no_reports)" and N = int_numops]
      health_fields_pass_through [where d = graded and N = int_numops
        and pvs = "[(''grade'', JStr ''B'')]" and g = "CHR ''B''" and gs = "[]"]
    by simp
qed

text \<open>
  The claim as stated fails: for the health report \<^verbatim>\<open>{"status":"degraded"}\<close> the health
  card does not render its placeholder.
\<close>

theorem health_fields_counterexample:
  "health (data (loadReports degraded_only (new_builder degraded_only)))
     = JObj [(''status'', JStr ''degraded'')]
   \<and> generateHealthMetrics int_numops (data (loadReports degraded_only (new_builder degraded_only)))
     \<noteq> Inr no_health_data"
  by (simp add: new_builder_loaded degraded_only_def no_reports_def loaded_value_def
      generateHealthMetrics_def get_prop_def nullish_def js_or_def no_health_data_def)


section \<open>Defaults, field by field\<close>

text \<open>
  C4 (amended). In a runtime that prints the number zero as \<^verbatim>\<open>0\<close>: the status of the
  badge is displayed with the default \<^verbatim>\<open>unknown\<close> in the class and \<^verbatim>\<open>Unknown\<close> as the
  text; in a card whose source object is there, every numeric field is displayed with
  the default \<^verbatim>\<open>0\<close> and the grade with the default \<^verbatim>\<open>N/A\<close>, each field by its own
  path and independently of the others; a field that is missing displays as its
  default. A card whose source object is missing renders its placeholder instead. In
  the sections that \<^verbatim>\<open>buildSections\<close> makes, every numeric field has the default zero,
  each by its own path, whatever part of the path is missing.
\<close>

theorem defaults_per_field:
  assumes "num_to_string N (num_zero N) = ''0''"
  shows "display N JUndefined dflt = Inr dflt
   \<and> status_class N d = display N (own_prop (health d) ''status'') ''unknown''
   \<and> status_text N d = display N (own_prop (health d) ''status'') ''Unknown''
   \<and> generatePerformanceMetrics N d
     = (let perf = own_prop (performance d) ''performance_score'' in
        if truthy N perf then
          and_then (display N (own_prop perf ''overall'') ''0'') (\<lambda>overall_str.
          and_then (display N (own_prop perf ''grade'') ''N/A'') (\<lambda>grade_str.
          Inr (perf_template overall_str grade_str)))
        else Inr no_performance_data)
   \<and> generateRepoStatus N d
     = (let repos = own_prop (repositories d) ''summary'' in
        if truthy N repos then
          and_then (display N (own_prop repos ''total_repositories'') ''0'') (\<lambda>total_str.
          and_then (display N (own_prop repos ''healthy'') ''0'') (\<lambda>healthy_str.
          and_then (display N (own_prop repos ''with_tests'') ''0'') (\<lambda>with_tests_str.
          Inr (repo_template total_str healthy_str with_tests_str))))
        else Inr no_repository_data)
   \<and> generateLabMetrics N d
     = (let lab = own_prop (performance d) ''lab_operations'' in
        if truthy N lab then
          and_then (display N (own_prop (own_prop lab ''tat_compliance'') ''current'') ''0'')
            (\<lambda>tat_str.
          and_then (display N (own_prop (own_prop lab ''qc_performance'') ''pass_rate'') ''0'')
            (\<lambda>qc_str.
          and_then (display N (own_prop (own_prop lab ''sample_volume'') ''daily_average'') ''0'')
            (\<lambda>samples_str.
          Inr (lab_template tat_str qc_str samples_str))))
        else Inr no_lab_data)
   \<and> generateWorkflowStatus N d
     = (let workflow = own_prop (performance d) ''workflow_efficiency'' in
        if truthy N workflow then
          and_then (display N (own_prop (own_prop workflow ''automation_rate'') ''current'') ''0'')
            (\<lambda>automation_str.
          and_then (display N (own_prop (own_prop workflow ''pipeline_performance'')
                      ''github_actions_success_rate'') ''0'')
            (\<lambda>pipeline_str.
          and_then (display N (own_prop (own_prop workflow ''data_quality'')
                      ''validation_pass_rate'') ''0'')
            (\<lambda>quality_str.
          Inr (workflow_template automation_str pipeline_str quality_str))))
        else Inr no_workflow_data)
   \<and> js_or N JUndefined v = v
   \<and> section_data (performance_section N d)
     = [(''tatCompliance'',
           js_or N (own_prop (own_prop (own_prop (performance d) ''lab_operations'')
                      ''tat_compliance'') ''current'') (JNum (num_zero N))),
        (''qcPassRate'',
           js_or N (own_prop (own_prop (own_prop (performance d) ''lab_operations'')
                      ''qc_performance'') ''pass_rate'') (JNum (num_zero N))),
        (''automationRate'',
           js_or N (own_prop (own_prop (own_prop (performance d) ''workflow_efficiency'')
                      ''automation_rate'') ''current'') (JNum (num_zero N))),
        (''systemUptime'',
           js_or N (own_prop (own_prop (own_prop (performance d) ''system_performance'')
                      ''availability'') ''uptime_percent'') (JNum (num_zero N)))]"
  using assms
  by (simp add: display_def status_class_def status_text_def shown_or_str
      generatePerformanceMetrics_def generateRepoStatus_def generateLabMetrics_def
      generateWorkflowStatus_def Let_def get_opt_own_prop get_prop_truthy shown_or_zero
      nested_or_zero_display js_or_def performance_section_def)

theorem defaults_per_field_witness:
  "num_to_string int_numops (num_zero int_numops) = ''0''
   \<and> status_class int_numops partial_performance = Inr ''unknown''
   \<and> status_text int_numops partial_performance = Inr ''Unknown''
   \<and> generatePerformanceMetrics int_numops partial_performance = Inr (perf_template ''8'' ''N/A'')
   \<and> generateRepoStatus int_numops partial_performance = Inr no_repository_data
   \<and> generateLabMetrics int_numops partial_performance = Inr (lab_template ''7'' ''0'' ''0'')
   \<and> generateWorkflowStatus int_numops partial_performance = Inr no_workflow_data
   \<and> section_data (performance_section int_numops partial_performance)
     = [(''tatCompliance'', JNum 7), (''qcPassRate'', JNum 0), (''automationRate'', JNum 0),
        (''systemUptime'', JNum 0)]"
proof -
  have zero: "num_to_string int_numops (num_zero int_numops) = ''0''"
    by (simp add: int_numops_def int_decimal_def decimal_digit)
  show ?thesis
    using zero defaults_per_field [OF zero, where d = partial_performance and dflt = "[]"]
    by (simp add: partial_performance_def new_builder_def display_def Let_def int_numops_def
        int_decimal_def decimal_digit js_or_def)
qed

text \<open>
  The claim as stated fails: with no performance report, the source paths of the three
  lab fields are missing, and the lab card renders its placeholder, not three zeros.
\<close>

theorem defaults_per_field_counterexample:
  "performance (data (loadReports no_reports (new_builder no_reports))) = JUndefined
   \<and> generateLabMetrics int_numops (data (loadReports no_reports (new_builder no_reports)))
     = Inr no_lab_data
   \<and> no_lab_data \<noteq> lab_template ''0'' ''0'' ''0''"
  by (simp add: new_builder_loaded no_reports_def loaded_value_def generateLabMetrics_def
      get_opt_own_prop no_lab_data_def lab_template_def)

end
